theory Spec2Isabelle
  imports Main "HOL-Library.List_Lexorder" "HOL-Library.Char_ord"
begin

section \<open>Runtime values\<close>

text \<open>
  The values the service handles at run time: what \<^verbatim>\<open>JSON.parse\<close> and axios hand over.
  An object carries its own properties in the engine's own-property order (the order of
  \<^verbatim>\<open>Object.entries\<close> and \<^verbatim>\<open>Object.keys\<close>), with distinct keys. An array carries its
  elements and, second, the named properties assigned to it afterwards (none after a
  parse). Numbers are kept as integers: the service only ever tests a number for zero.
  A \<^typ>\<open>char\<close> stands for one code unit of a JavaScript string.
\<close>

datatype json =
    JNull
  | JBool bool
  | JNum int
  | JStr string
  | JArr "json list" "(string \<times> json) list"
  | JObj "(string \<times> json) list"

text \<open>JavaScript's ToBoolean, as \<^verbatim>\<open>!x\<close>, \<^verbatim>\<open>x && y\<close> and \<^verbatim>\<open>x || y\<close> apply it.\<close>

fun truthy :: "json \<Rightarrow> bool" where
  "truthy JNull = False"
| "truthy (JBool b) = b"
| "truthy (JNum n) = (n \<noteq> 0)"
| "truthy (JStr s) = (s \<noteq> [])"
| "truthy (JArr xs ps) = True"
| "truthy (JObj ps) = True"

text \<open>
  A thrown value (or the reason of a rejected promise): an \<^verbatim>\<open>Error\<close> instance with its
  message, or some other value.
\<close>

datatype thrown = ErrorObject string | OtherValue

text \<open>An awaited promise: it rejects with a reason or resolves to a value.\<close>

datatype 'a settled = Rejected thrown | Resolved 'a

text \<open>
  The message of a \<^verbatim>\<open>TypeError\<close> raised by the engine itself is engine-defined; the model
  fixes one text for it, and no statement below depends on which.
\<close>

definition type_error :: thrown where
  "type_error = ErrorObject ''TypeError''"

text \<open>The pattern \<^verbatim>\<open>error instanceof Error ? error.message : fallback\<close> of every catch block.\<close>

fun error_message :: "string \<Rightarrow> thrown \<Rightarrow> string" where
  "error_message fallback (ErrorObject m) = m"
| "error_message fallback OtherValue = fallback"

subsection \<open>Numbers as decimal strings\<close>

definition digit_char :: "nat \<Rightarrow> char" where
  "digit_char d = ''0123456789'' ! d"

text \<open>
  \<^verbatim>\<open>n.toString()\<close> and \<^verbatim>\<open>`${n}`\<close> for a non-negative integer \<open>n\<close> (below \<open>10^21\<close>, where
  JavaScript switches to exponent notation; lengths, HTTP statuses and
  \<^verbatim>\<open>Date.now()\<close> are far below).
\<close>

fun show_nat :: "nat \<Rightarrow> string" where
  "show_nat n = (if n < 10 then [digit_char n] else show_nat (n div 10) @ [digit_char (n mod 10)])"

declare show_nat.simps [simp del]

subsection \<open>Own properties and their order\<close>

definition index_value :: "string \<Rightarrow> nat" where
  "index_value k = foldl (\<lambda>n c. 10 * n + (of_char c - 48)) 0 k"

text \<open>
  An array index is the canonical decimal string of an integer up to \<open>2^32 - 2\<close>. An object
  lists such keys first, in ascending numeric order, and every other string key after
  them in the order of creation.
\<close>

definition is_array_index :: "string \<Rightarrow> bool" where
  "is_array_index k \<longleftrightarrow>
     k \<noteq> [] \<and> list_all (\<lambda>c. c \<in> set ''0123456789'') k \<and>
     (k = ''0'' \<or> hd k \<noteq> CHR ''0'') \<and> index_value k \<le> 4294967294"

fun insert_index :: "string \<Rightarrow> 'v \<Rightarrow> (string \<times> 'v) list \<Rightarrow> (string \<times> 'v) list" where
  "insert_index k v [] = [(k, v)]"
| "insert_index k v (p # ps) =
     (if is_array_index (fst p) \<and> index_value (fst p) < index_value k
      then p # insert_index k v ps
      else (k, v) # p # ps)"

text \<open>
  The assignment \<^verbatim>\<open>obj[k] = v\<close> on an ordinary object, for a key other than
  \<^verbatim>\<open>__proto__\<close>: an existing own property keeps its place and takes the new value, a new
  one is created at the place the own-property order gives it.
\<close>

definition set_prop :: "string \<Rightarrow> 'v \<Rightarrow> (string \<times> 'v) list \<Rightarrow> (string \<times> 'v) list" where
  "set_prop k v ps =
     (if k \<in> set (map fst ps) then map (\<lambda>p. if fst p = k then (k, v) else p) ps
      else if is_array_index k then insert_index k v ps
      else ps @ [(k, v)])"

text \<open>\<^verbatim>\<open>parts.join(sep)\<close> on an array of strings.\<close>

fun join :: "string \<Rightarrow> string list \<Rightarrow> string" where
  "join sep [] = []"
| "join sep [x] = x"
| "join sep (x # y # ys) = x @ sep @ join sep (y # ys)"

section \<open>The service and its surroundings\<close>

text \<open>
  The fields of \<^verbatim>\<open>ApiService\<close> that change: the cookie jar (an object from cookie name to
  cookie value) and the facilities cache. \<^verbatim>\<open>baseUrl\<close> is a constant.
\<close>

record service =
  cookies :: "(string \<times> string) list"
  facilitiesCache :: "json list option"

definition baseUrl :: string where
  "baseUrl = ''https://anc.ca.apm.activecommunities.com/activemississauga''"

text \<open>The constructor: \<^verbatim>\<open>this.cookies = {}\<close>, \<^verbatim>\<open>this.facilitiesCache = null\<close>.\<close>

definition constructor :: service where
  "constructor = \<lparr>cookies = [], facilitiesCache = None\<rparr>"

text \<open>The type \<^verbatim>\<open>ApiResponse<T>\<close> of \<^verbatim>\<open>types/index.ts\<close>; an absent field is \<open>None\<close>.\<close>

record api_response =
  success :: bool
  data :: "json option"
  error :: "string option"
  message :: "string option"

text \<open>The request configuration handed to axios (its \<^verbatim>\<open>method\<close> is the field \<open>http_method\<close>), and the
  response axios resolves to.\<close>

record config =
  http_method :: string
  url :: string
  params :: "(string \<times> string) list"
  headers :: "(string \<times> string) list"
  timeout :: nat

record http_response =
  status :: nat
  statusText :: string
  response_data :: json

text \<open>A cookie as \<^verbatim>\<open>page.cookies()\<close> reports it; the service reads its name and value.\<close>

record browser_cookie =
  cookie_name :: string
  cookie_value :: string

text \<open>
  Reading \<^verbatim>\<open>data/all_facilities.json\<close>: \<^verbatim>\<open>fs.readFile\<close> rejects, or \<^verbatim>\<open>JSON.parse\<close>
  throws on the text read, or the text parses to a value.
\<close>

datatype catalog_source = Unreadable thrown | NotJson thrown | Document json

text \<open>
  Everything outside the service that one call meets: how each awaited puppeteer call
  settles, the clock, how axios settles the request it is given, the catalog file, and
  the engine's prototype chains (\<open>inherited v k\<close>: the value \<open>v\<close> has no own property
  \<open>k\<close> and finds one on its prototype chain, such as \<^verbatim>\<open>constructor\<close> or \<^verbatim>\<open>toString\<close>).
\<close>

record world =
  launch :: "unit settled"
  newPage :: "unit settled"
  setUserAgent :: "unit settled"
  goto :: "unit settled"
  page_cookies :: "browser_cookie list settled"
  browser_close :: "unit settled"
  now :: nat
  axios :: "config \<Rightarrow> http_response settled"
  catalog_file :: catalog_source
  inherited :: "json \<Rightarrow> string \<Rightarrow> bool"

text \<open>What a call does to the outside, in order.\<close>

datatype event = BrowserLaunch | BrowserClose | HttpRequest config

text \<open>
  One call of a method: the service afterwards, the outside effects in order, and either
  the value thrown out of the method (\<open>Inl\<close>) or the value it returns (\<open>Inr\<close>).
\<close>

record 'a run =
  after :: service
  events :: "event list"
  returned :: "thrown + 'a"

section \<open>Session cookies\<close>

text \<open>
  The reducer of \<^verbatim>\<open>refreshCookies\<close>, from the empty object:
  \<^verbatim>\<open>acc[cookie.name] = cookie.value\<close>. Assigning a string to \<^verbatim>\<open>__proto__\<close> runs the
  inherited setter, which ignores a value that is no object: no property is created.
\<close>

definition harvest :: "browser_cookie list \<Rightarrow> (string \<times> string) list" where
  "harvest cs =
     foldl (\<lambda>acc c. if cookie_name c = ''__proto__'' then acc
                     else set_prop (cookie_name c) (cookie_value c) acc) [] cs"

definition refresh_failure :: "thrown \<Rightarrow> api_response" where
  "refresh_failure e =
     \<lparr>success = False, data = None, error = Some (error_message ''Unknown error'' e),
      message = None\<rparr>"

text \<open>
  The \<^verbatim>\<open>try\<close> and \<^verbatim>\<open>catch\<close> blocks of \<^verbatim>\<open>refreshCookies\<close> in \<^verbatim>\<open>ApiService.ts\<close>: the page
  calls in order, then the harvest, which replaces \<^verbatim>\<open>this.cookies\<close>; a rejection of any
  awaited call leaves the service as it was and becomes a failure result.
\<close>

definition acquire :: "world \<Rightarrow> service \<Rightarrow> service \<times> api_response" where
  "acquire w s =
     (case newPage w of Rejected e \<Rightarrow> (s, refresh_failure e) | Resolved _ \<Rightarrow>
     (case setUserAgent w of Rejected e \<Rightarrow> (s, refresh_failure e) | Resolved _ \<Rightarrow>
     (case goto w of Rejected e \<Rightarrow> (s, refresh_failure e) | Resolved _ \<Rightarrow>
     (case page_cookies w of Rejected e \<Rightarrow> (s, refresh_failure e) | Resolved cs \<Rightarrow>
        (let jar = harvest cs
         in (s\<lparr>cookies := jar\<rparr>,
             \<lparr>success = True, data = Some (JBool True), error = None,
              message = Some (''Got '' @ show_nat (length jar) @ '' cookies'')\<rparr>))))))"

text \<open>
  \<^verbatim>\<open>refreshCookies\<close> of \<^verbatim>\<open>ApiService.ts\<close>. The launch is awaited before the \<^verbatim>\<open>try\<close>;
  \<^verbatim>\<open>browser.close()\<close> is awaited in the \<^verbatim>\<open>finally\<close>, and a rejection there replaces the
  value the \<^verbatim>\<open>try\<close> or the \<^verbatim>\<open>catch\<close> was returning.
\<close>

definition refreshCookies :: "world \<Rightarrow> service \<Rightarrow> api_response run" where
  "refreshCookies w s =
     (case launch w of
        Rejected e \<Rightarrow> \<lparr>after = s, events = [BrowserLaunch], returned = Inl e\<rparr>
      | Resolved _ \<Rightarrow>
          (case browser_close w of
             Rejected e \<Rightarrow>
               \<lparr>after = fst (acquire w s), events = [BrowserLaunch, BrowserClose],
                returned = Inl e\<rparr>
           | Resolved _ \<Rightarrow>
               \<lparr>after = fst (acquire w s), events = [BrowserLaunch, BrowserClose],
                returned = Inr (snd (acquire w s))\<rparr>))"

text \<open>
  \<^verbatim>\<open>refreshCookies\<close> of \<^verbatim>\<open>ApiService.js\<close>: the same calls in the same places; the
  success result carries \<^verbatim>\<open>cookieCount\<close>, the failure result \<^verbatim>\<open>error.message\<close> (undefined
  for a thrown value that is no \<^verbatim>\<open>Error\<close>).
\<close>

record js_refresh_result =
  js_success :: bool
  cookieCount :: "nat option"
  js_error :: "string option"

definition js_refresh_failure :: "thrown \<Rightarrow> js_refresh_result" where
  "js_refresh_failure e =
     \<lparr>js_success = False, cookieCount = None,
      js_error = (case e of ErrorObject m \<Rightarrow> Some m | OtherValue \<Rightarrow> None)\<rparr>"

definition acquire_js :: "world \<Rightarrow> service \<Rightarrow> service \<times> js_refresh_result" where
  "acquire_js w s =
     (case newPage w of Rejected e \<Rightarrow> (s, js_refresh_failure e) | Resolved _ \<Rightarrow>
     (case setUserAgent w of Rejected e \<Rightarrow> (s, js_refresh_failure e) | Resolved _ \<Rightarrow>
     (case goto w of Rejected e \<Rightarrow> (s, js_refresh_failure e) | Resolved _ \<Rightarrow>
     (case page_cookies w of Rejected e \<Rightarrow> (s, js_refresh_failure e) | Resolved cs \<Rightarrow>
        (let jar = harvest cs
         in (s\<lparr>cookies := jar\<rparr>,
             \<lparr>js_success = True, cookieCount = Some (length jar), js_error = None\<rparr>))))))"

definition refreshCookies_js :: "world \<Rightarrow> service \<Rightarrow> js_refresh_result run" where
  "refreshCookies_js w s =
     (case launch w of
        Rejected e \<Rightarrow> \<lparr>after = s, events = [BrowserLaunch], returned = Inl e\<rparr>
      | Resolved _ \<Rightarrow>
          (case browser_close w of
             Rejected e \<Rightarrow>
               \<lparr>after = fst (acquire_js w s), events = [BrowserLaunch, BrowserClose],
                returned = Inl e\<rparr>
           | Resolved _ \<Rightarrow>
               \<lparr>after = fst (acquire_js w s), events = [BrowserLaunch, BrowserClose],
                returned = Inr (snd (acquire_js w s))\<rparr>))"

section \<open>The facility catalog\<close>

text \<open>Array indices as property names, counted from \<open>i\<close>.\<close>

fun indexed :: "nat \<Rightarrow> 'a list \<Rightarrow> (string \<times> 'a) list" where
  "indexed i [] = []"
| "indexed i (x # xs) = (show_nat i, x) # indexed (Suc i) xs"

text \<open>
  \<^verbatim>\<open>Object.entries(v)\<close>: a \<^verbatim>\<open>TypeError\<close> on \<^verbatim>\<open>null\<close>; nothing for a boolean or a number; the
  indexed characters of a string; the indexed elements of an array, then its named
  properties; the own properties of an object.
\<close>

fun entries :: "json \<Rightarrow> thrown + (string \<times> json) list" where
  "entries JNull = Inl type_error"
| "entries (JBool b) = Inr []"
| "entries (JNum n) = Inr []"
| "entries (JStr s) = Inr (indexed 0 (map (\<lambda>c. JStr [c]) s))"
| "entries (JArr xs ps) = Inr (indexed 0 xs @ ps)"
| "entries (JObj ps) = Inr ps"

text \<open>
  \<^verbatim>\<open>centerData.facilities\<close>: a \<^verbatim>\<open>TypeError\<close> on \<^verbatim>\<open>null\<close>, the own property of an object or an
  array, \<^verbatim>\<open>undefined\<close> (\<open>None\<close>) where there is none; no prototype has a property of
  this name.
\<close>

fun facilities_of :: "json \<Rightarrow> thrown + json option" where
  "facilities_of JNull = Inl type_error"
| "facilities_of (JObj ps) = Inr (map_of ps ''facilities'')"
| "facilities_of (JArr xs ps) = Inr (map_of ps ''facilities'')"
| "facilities_of (JBool b) = Inr None"
| "facilities_of (JNum n) = Inr None"
| "facilities_of (JStr s) = Inr None"

text \<open>\<^verbatim>\<open>x || []\<close>: a fresh empty array unless \<open>x\<close> is truthy.\<close>

definition or_empty :: "json option \<Rightarrow> json" where
  "or_empty x = (case x of None \<Rightarrow> JArr [] [] | Some v \<Rightarrow> if truthy v then v else JArr [] [])"

text \<open>
  \<^verbatim>\<open>facility.center_name = centerName\<close> in strict code (a class body): it sets the property
  on an object or an array, and raises a \<^verbatim>\<open>TypeError\<close> on \<^verbatim>\<open>null\<close> and on a primitive.
\<close>

fun assign_center_name :: "string \<Rightarrow> json \<Rightarrow> thrown + json" where
  "assign_center_name centerName (JObj ps) =
     Inr (JObj (set_prop ''center_name'' (JStr centerName) ps))"
| "assign_center_name centerName (JArr xs ps) =
     Inr (JArr xs (set_prop ''center_name'' (JStr centerName) ps))"
| "assign_center_name centerName JNull = Inl type_error"
| "assign_center_name centerName (JBool b) = Inl type_error"
| "assign_center_name centerName (JNum n) = Inl type_error"
| "assign_center_name centerName (JStr s) = Inl type_error"

text \<open>
  The inner loop of \<^verbatim>\<open>getAllFacilities\<close> over the elements of an array: each element gets
  its \<^verbatim>\<open>center_name\<close> and is pushed onto \<^verbatim>\<open>facilities\<close> (the accumulator).
\<close>

fun push_all :: "string \<Rightarrow> json list \<Rightarrow> json list \<Rightarrow> thrown + json list" where
  "push_all centerName [] facilities = Inr facilities"
| "push_all centerName (facility # rest) facilities =
     (case assign_center_name centerName facility of
        Inl e \<Rightarrow> Inl e
      | Inr facility' \<Rightarrow> push_all centerName rest (facilities @ [facility']))"

text \<open>
  \<^verbatim>\<open>for (const facility of centerFacilities)\<close> on a truthy value: an array is iterated; a
  (non-empty) string yields a one-character string first, on which the assignment
  raises; no other value is iterable.
\<close>

fun for_of :: "string \<Rightarrow> json \<Rightarrow> json list \<Rightarrow> thrown + json list" where
  "for_of centerName (JArr xs ps) facilities = push_all centerName xs facilities"
| "for_of centerName (JStr s) facilities = Inl type_error"
| "for_of centerName JNull facilities = Inl type_error"
| "for_of centerName (JBool b) facilities = Inl type_error"
| "for_of centerName (JNum n) facilities = Inl type_error"
| "for_of centerName (JObj ps) facilities = Inl type_error"

text \<open>The outer loop of \<^verbatim>\<open>getAllFacilities\<close> over \<^verbatim>\<open>Object.entries(facilitiesJson)\<close>.\<close>

fun collect :: "(string \<times> json) list \<Rightarrow> json list \<Rightarrow> thrown + json list" where
  "collect [] facilities = Inr facilities"
| "collect ((centerName, centerData) # rest) facilities =
     (case facilities_of centerData of
        Inl e \<Rightarrow> Inl e
      | Inr x \<Rightarrow>
          (case for_of centerName (or_empty x) facilities of
             Inl e \<Rightarrow> Inl e
           | Inr facilities' \<Rightarrow> collect rest facilities'))"

text \<open>The \<^verbatim>\<open>try\<close> block of \<^verbatim>\<open>getAllFacilities\<close> up to the loops' end.\<close>

definition load_all :: "catalog_source \<Rightarrow> thrown + json list" where
  "load_all src =
     (case src of
        Unreadable e \<Rightarrow> Inl e
      | NotJson e \<Rightarrow> Inl e
      | Document facilitiesJson \<Rightarrow>
          (case entries facilitiesJson of Inl e \<Rightarrow> Inl e | Inr es \<Rightarrow> collect es []))"

text \<open>
  \<^verbatim>\<open>getAllFacilities\<close> of \<^verbatim>\<open>ApiService.ts\<close>: whatever the \<^verbatim>\<open>try\<close> block throws becomes a
  failure result; on success the list is also stored in \<^verbatim>\<open>facilitiesCache\<close>.
\<close>

definition getAllFacilities :: "world \<Rightarrow> service \<Rightarrow> api_response run" where
  "getAllFacilities w s =
     (case load_all (catalog_file w) of
        Inl e \<Rightarrow>
          \<lparr>after = s, events = [],
           returned = Inr \<lparr>success = False, data = None,
                          error = Some (error_message ''Failed to load facilities'' e),
                          message = None\<rparr>\<rparr>
      | Inr facilities \<Rightarrow>
          \<lparr>after = s\<lparr>facilitiesCache := Some facilities\<rparr>, events = [],
           returned = Inr \<lparr>success = True, data = Some (JArr facilities []), error = None,
                          message = None\<rparr>\<rparr>)"

text \<open>
  \<^verbatim>\<open>getAllFacilities\<close> of \<^verbatim>\<open>ApiService.js\<close>: the same loops; the list itself is returned,
  and whatever the \<^verbatim>\<open>try\<close> block throws is thrown again.
\<close>

definition getAllFacilities_js :: "world \<Rightarrow> service \<Rightarrow> json run" where
  "getAllFacilities_js w s =
     (case load_all (catalog_file w) of
        Inl e \<Rightarrow> \<lparr>after = s, events = [], returned = Inl e\<rparr>
      | Inr facilities \<Rightarrow>
          \<lparr>after = s\<lparr>facilitiesCache := Some facilities\<rparr>, events = [],
           returned = Inr (JArr facilities [])\<rparr>)"

text \<open>
  What \<^verbatim>\<open>facilitiesJson[centerName]\<close> finds: nothing, an own property, or a property of
  the prototype chain (a method, or the prototype itself for \<^verbatim>\<open>__proto__\<close>: always an
  object, so truthy, and without a \<^verbatim>\<open>facilities\<close> property).
\<close>

datatype property = Undefined | Own json | Inherited

fun get_prop :: "(json \<Rightarrow> string \<Rightarrow> bool) \<Rightarrow> json \<Rightarrow> string \<Rightarrow> thrown + property" where
  "get_prop inh JNull k = Inl type_error"
| "get_prop inh (JObj ps) k =
     Inr (case map_of ps k of Some v \<Rightarrow> Own v
          | None \<Rightarrow> if inh (JObj ps) k then Inherited else Undefined)"
| "get_prop inh (JArr xs ps) k =
     Inr (if k = ''length'' then Own (JNum (int (length xs)))
          else if is_array_index k \<and> index_value k < length xs then Own (xs ! index_value k)
          else case map_of ps k of Some v \<Rightarrow> Own v
               | None \<Rightarrow> if inh (JArr xs ps) k then Inherited else Undefined)"
| "get_prop inh (JStr s) k =
     Inr (if k = ''length'' then Own (JNum (int (length s)))
          else if is_array_index k \<and> index_value k < length s then Own (JStr [s ! index_value k])
          else if inh (JStr s) k then Inherited else Undefined)"
| "get_prop inh (JBool b) k = Inr (if inh (JBool b) k then Inherited else Undefined)"
| "get_prop inh (JNum n) k = Inr (if inh (JNum n) k then Inherited else Undefined)"

fun truthy_property :: "property \<Rightarrow> bool" where
  "truthy_property Undefined = False"
| "truthy_property (Own v) = truthy v"
| "truthy_property Inherited = True"

text \<open>
  \<^verbatim>\<open>facilities.forEach(facility => { facility.center_name = centerName })\<close> on the
  elements of an array, in order, stopping at the first assignment that raises.
\<close>

fun forEach_assign :: "string \<Rightarrow> json list \<Rightarrow> thrown + json list" where
  "forEach_assign centerName [] = Inr []"
| "forEach_assign centerName (facility # rest) =
     (case assign_center_name centerName facility of
        Inl e \<Rightarrow> Inl e
      | Inr facility' \<Rightarrow>
          (case forEach_assign centerName rest of
             Inl e \<Rightarrow> Inl e
           | Inr rest' \<Rightarrow> Inr (facility' # rest')))"

text \<open>
  \<^verbatim>\<open>facilities.forEach(...)\<close> on a truthy value: only an array has the method; calling
  it on anything else raises a \<^verbatim>\<open>TypeError\<close>. The array itself is what is returned.
\<close>

fun forEach :: "string \<Rightarrow> json \<Rightarrow> thrown + json" where
  "forEach centerName (JArr xs ps) =
     (case forEach_assign centerName xs of Inl e \<Rightarrow> Inl e | Inr xs' \<Rightarrow> Inr (JArr xs' ps))"
| "forEach centerName (JStr s) = Inl type_error"
| "forEach centerName JNull = Inl type_error"
| "forEach centerName (JBool b) = Inl type_error"
| "forEach centerName (JNum n) = Inl type_error"
| "forEach centerName (JObj ps) = Inl type_error"

text \<open>The \<^verbatim>\<open>try\<close> block of \<^verbatim>\<open>getFacilitiesByCenter\<close>: the value of \<^verbatim>\<open>data\<close>, or what is thrown.\<close>

definition load_center :: "world \<Rightarrow> string \<Rightarrow> thrown + json" where
  "load_center w centerName =
     (case catalog_file w of
        Unreadable e \<Rightarrow> Inl e
      | NotJson e \<Rightarrow> Inl e
      | Document facilitiesJson \<Rightarrow>
          if centerName = [] then Inr (JArr [] [])
          else
            (case get_prop (inherited w) facilitiesJson centerName of
               Inl e \<Rightarrow> Inl e
             | Inr centerData \<Rightarrow>
                 if \<not> truthy_property centerData then Inr (JArr [] [])
                 else
                   (case centerData of
                      Own v \<Rightarrow>
                        (case facilities_of v of
                           Inl e \<Rightarrow> Inl e
                         | Inr x \<Rightarrow> forEach centerName (or_empty x))
                    | Inherited \<Rightarrow> forEach centerName (or_empty None)
                    | Undefined \<Rightarrow> Inr (JArr [] []))))"

text \<open>\<^verbatim>\<open>getFacilitiesByCenter\<close> of \<^verbatim>\<open>ApiService.ts\<close>.\<close>

definition getFacilitiesByCenter :: "world \<Rightarrow> string \<Rightarrow> service \<Rightarrow> api_response run" where
  "getFacilitiesByCenter w centerName s =
     (case load_center w centerName of
        Inl e \<Rightarrow>
          \<lparr>after = s, events = [],
           returned = Inr \<lparr>success = False, data = Some (JArr [] []),
                          error = Some (error_message ''Failed to load facilities by center'' e),
                          message = None\<rparr>\<rparr>
      | Inr facilities \<Rightarrow>
          \<lparr>after = s, events = [],
           returned = Inr \<lparr>success = True, data = Some facilities, error = None,
                          message = None\<rparr>\<rparr>)"

text \<open>
  \<^verbatim>\<open>Object.keys(facilitiesJson).sort()\<close>: the keys are those of \<^verbatim>\<open>Object.entries\<close>; the
  default sort orders strings by their code units, a proper prefix first, which is the
  lexicographic order of \<^typ>\<open>string\<close>.
\<close>

definition sorted_keys :: "catalog_source \<Rightarrow> thrown + string list" where
  "sorted_keys src =
     (case src of
        Unreadable e \<Rightarrow> Inl e
      | NotJson e \<Rightarrow> Inl e
      | Document facilitiesJson \<Rightarrow>
          (case entries facilitiesJson of Inl e \<Rightarrow> Inl e | Inr es \<Rightarrow> Inr (sort (map fst es))))"

text \<open>\<^verbatim>\<open>getUniqueCenters\<close> of \<^verbatim>\<open>ApiService.ts\<close>.\<close>

definition getUniqueCenters :: "world \<Rightarrow> service \<Rightarrow> api_response run" where
  "getUniqueCenters w s =
     (case sorted_keys (catalog_file w) of
        Inl e \<Rightarrow>
          \<lparr>after = s, events = [],
           returned = Inr \<lparr>success = False, data = Some (JArr [] []),
                          error = Some (error_message ''Failed to load centers'' e),
                          message = None\<rparr>\<rparr>
      | Inr centers \<Rightarrow>
          \<lparr>after = s, events = [],
           returned = Inr \<lparr>success = True, data = Some (JArr (map JStr centers) []),
                          error = None, message = None\<rparr>\<rparr>)"


section \<open>Availability queries\<close>

text \<open>
  The opening block of both queries:
  \<^verbatim>\<open>if (Object.keys(this.cookies).length === 0) { await this.refreshCookies(); }\<close>.
  The result of the refresh is dropped; what it throws is thrown on, since the block
  stands before the \<^verbatim>\<open>try\<close>.
\<close>

definition ensure_cookies :: "world \<Rightarrow> service \<Rightarrow> unit run" where
  "ensure_cookies w s =
     (if length (cookies s) = 0
      then (let r = refreshCookies w s
            in \<lparr>after = after r, events = events r,
                returned = (case returned r of Inl e \<Rightarrow> Inl e | Inr x \<Rightarrow> Inr ())\<rparr>)
      else \<lparr>after = s, events = [], returned = Inr ()\<rparr>)"

text \<open>
  The closing block of the request construction: with a non-empty jar,
  \<^verbatim>\<open>config.headers['Cookie']\<close> is set to the entries of the jar as \<^verbatim>\<open>name=value\<close>, joined by
  \<^verbatim>\<open>'; '\<close>.
\<close>

definition attach_cookies :: "(string \<times> string) list \<Rightarrow> config \<Rightarrow> config" where
  "attach_cookies jar c =
     (if length jar > 0
      then c\<lparr>headers :=
               set_prop ''Cookie'' (join ''; '' (map (\<lambda>(name, v). name @ ''='' @ v) jar))
                 (headers c)\<rparr>
      else c)"

text \<open>
  The \<^verbatim>\<open>try\<close> and \<^verbatim>\<open>catch\<close> around the axios call: a response with status 200 and truthy
  \<^verbatim>\<open>data\<close> is a success carrying that data; any other response throws
  \<^verbatim>\<open>HTTP <status>: <statusText>\<close> into the \<^verbatim>\<open>catch\<close>, where it and every rejection of axios
  become a failure result.
\<close>

definition answer :: "string \<Rightarrow> http_response settled \<Rightarrow> api_response" where
  "answer fallback r =
     (case r of
        Rejected e \<Rightarrow>
          \<lparr>success = False, data = None, error = Some (error_message fallback e),
           message = None\<rparr>
      | Resolved response \<Rightarrow>
          if status response = 200 \<and> truthy (response_data response)
          then \<lparr>success = True, data = Some (response_data response), error = None,
                message = None\<rparr>
          else \<lparr>success = False, data = None,
                error = Some (error_message fallback
                  (ErrorObject (''HTTP '' @ show_nat (status response) @ '': '' @
                     statusText response))),
                message = None\<rparr>)"

text \<open>The request \<^verbatim>\<open>getFacilityAvailability\<close> builds before the cookies are attached.\<close>

definition daily_config :: "nat \<Rightarrow> string \<Rightarrow> string \<Rightarrow> config" where
  "daily_config date_now facilityId date =
     (let startDate = date; endDate = date
      in \<lparr>http_method = ''get'',
          url = baseUrl @ ''/rest/reservation/resource/availability/daily/'' @ facilityId,
          params =
            [(''start_date'', startDate), (''end_date'', endDate), (''customer_id'', ''0''),
             (''company_id'', ''0''), (''locale'', ''en-US''),
             (''ui_random'', show_nat date_now)],
          headers =
            [(''User-Agent'',
              ''Mozilla/5.0 (Windows NT 10.0; Win64; x64; rv:142.0) Gecko/20100101 Firefox/142.0''),
             (''Accept'', ''text/html,application/xhtml+xml,application/xml;q=0.9,*/*;q=0.8''),
             (''Accept-Language'', ''en-CA,en-US;q=0.7,en;q=0.3''),
             (''Referer'', baseUrl @ ''/reservation/landing/search/detail/'' @ facilityId)],
          timeout = 10000\<rparr>)"

text \<open>\<^verbatim>\<open>getFacilityAvailability\<close> of \<^verbatim>\<open>ApiService.ts\<close>.\<close>

definition getFacilityAvailability ::
  "world \<Rightarrow> string \<Rightarrow> string \<Rightarrow> service \<Rightarrow> api_response run" where
  "getFacilityAvailability w facilityId date s =
     (let pre = ensure_cookies w s
      in case returned pre of
           Inl e \<Rightarrow> \<lparr>after = after pre, events = events pre, returned = Inl e\<rparr>
         | Inr u \<Rightarrow>
             (let c = attach_cookies (cookies (after pre)) (daily_config (now w) facilityId date)
              in \<lparr>after = after pre, events = events pre @ [HttpRequest c],
                  returned = Inr (answer ''Failed to get facility availability'' (axios w c))\<rparr>))"

text \<open>The request \<^verbatim>\<open>getFacilityWeeklyAvailability\<close> builds before the cookies are attached.\<close>

definition weekly_config :: "nat \<Rightarrow> string \<Rightarrow> string \<Rightarrow> string \<Rightarrow> config" where
  "weekly_config date_now facilityId startDate endDate =
     \<lparr>http_method = ''get'',
      url = baseUrl @ ''/rest/reservation/resource/availability/daily/'' @ facilityId,
      params =
        [(''start_date'', startDate), (''end_date'', endDate), (''customer_id'', ''0''),
         (''company_id'', ''0''), (''locale'', ''en-US''),
         (''ui_random'', show_nat date_now)],
      headers =
        [(''User-Agent'',
          ''Mozilla/5.0 (Windows NT 10.0; Win64; x64; rv:142.0) Gecko/20100101 Firefox/142.0''),
         (''Accept'', ''text/html,application/xhtml+xml,application/xml;q=0.9,*/*;q=0.8''),
         (''Accept-Language'', ''en-CA,en-US;q=0.7,en;q=0.3''),
         (''Referer'', baseUrl @ ''/reservation/landing/search/detail/'' @ facilityId)],
      timeout = 15000\<rparr>"

text \<open>\<^verbatim>\<open>getFacilityWeeklyAvailability\<close> of \<^verbatim>\<open>ApiService.ts\<close>.\<close>

definition getFacilityWeeklyAvailability ::
  "world \<Rightarrow> string \<Rightarrow> string \<Rightarrow> string \<Rightarrow> service \<Rightarrow> api_response run" where
  "getFacilityWeeklyAvailability w facilityId startDate endDate s =
     (let pre = ensure_cookies w s
      in case returned pre of
           Inl e \<Rightarrow> \<lparr>after = after pre, events = events pre, returned = Inl e\<rparr>
         | Inr u \<Rightarrow>
             (let c = attach_cookies (cookies (after pre))
                        (weekly_config (now w) facilityId startDate endDate)
              in \<lparr>after = after pre, events = events pre @ [HttpRequest c],
                  returned = Inr (answer ''Failed to get weekly availability'' (axios w c))\<rparr>))"

section \<open>Notions the statements use\<close>

text \<open>The requests among the outside effects of a call, in order.\<close>

fun requests :: "event list \<Rightarrow> config list" where
  "requests [] = []"
| "requests (HttpRequest c # evs) = c # requests evs"
| "requests (BrowserLaunch # evs) = requests evs"
| "requests (BrowserClose # evs) = requests evs"

text \<open>How often a call starts a cookie refresh: each refresh launches one browser first.\<close>

definition refreshes :: "event list \<Rightarrow> nat" where
  "refreshes evs = length (filter (\<lambda>ev. ev = BrowserLaunch) evs)"

text \<open>
  The catalog as the interface \<^verbatim>\<open>FacilitiesJson\<close> declares it: a center is an object whose
  \<^verbatim>\<open>facilities\<close>, when present, is an array of objects.
\<close>

fun is_record :: "json \<Rightarrow> bool" where
  "is_record (JObj ps) = True"
| "is_record v = False"

fun is_center :: "json \<Rightarrow> bool" where
  "is_center (JObj ps) =
     (case map_of ps ''facilities'' of
        None \<Rightarrow> True
      | Some (JArr xs qs) \<Rightarrow> list_all is_record xs
      | Some v \<Rightarrow> False)"
| "is_center v = False"

text \<open>The resources a center lists, and all resources of a catalog with their center keys.\<close>

fun resources :: "json \<Rightarrow> json list" where
  "resources (JObj ps) = (case map_of ps ''facilities'' of Some (JArr xs qs) \<Rightarrow> xs | x \<Rightarrow> [])"
| "resources v = []"

definition listing :: "(string \<times> json) list \<Rightarrow> (string \<times> json) list" where
  "listing centers = concat (map (\<lambda>(centerName, centerData). map (Pair centerName) (resources centerData)) centers)"

text \<open>A field of a record; \<open>None\<close> when the record does not carry it.\<close>

fun field :: "string \<Rightarrow> json \<Rightarrow> json option" where
  "field k (JObj ps) = map_of ps k"
| "field k v = None"

text \<open>
  The record \<open>f'\<close> is the raw record \<open>f\<close> listed under \<open>centerName\<close>: its \<^verbatim>\<open>center_name\<close> is the
  center key, every other field is as in \<open>f\<close>.
\<close>

definition listed_as :: "string \<times> json \<Rightarrow> json \<Rightarrow> bool" where
  "listed_as cf f' \<longleftrightarrow>
     is_record f' \<and> field ''center_name'' f' = Some (JStr (fst cf)) \<and>
     (\<forall>k. k \<noteq> ''center_name'' \<longrightarrow> field k f' = field k (snd cf))"

text \<open>
  The mapping shape in the words of the specification: a top-level object from center
  name to a record with a facilities list.
\<close>

fun has_facilities_list :: "json \<Rightarrow> bool" where
  "has_facilities_list (JObj ps) =
     (case map_of ps ''facilities'' of Some (JArr xs qs) \<Rightarrow> True | x \<Rightarrow> False)"
| "has_facilities_list v = False"

fun expected_shape :: "json \<Rightarrow> bool" where
  "expected_shape (JObj centers) = list_all (\<lambda>c. has_facilities_list (snd c)) centers"
| "expected_shape v = False"

text \<open>
  The documents on which the loops of \<^verbatim>\<open>getAllFacilities\<close> raise: \<^verbatim>\<open>null\<close> itself, or an
  entry that is \<^verbatim>\<open>null\<close>, or whose \<^verbatim>\<open>facilities\<close> is truthy and not an array, or is an array
  with an element that is \<^verbatim>\<open>null\<close> or a primitive.
\<close>

fun is_object :: "json \<Rightarrow> bool" where
  "is_object (JObj ps) = True"
| "is_object (JArr xs ps) = True"
| "is_object v = False"

fun own_facilities :: "json \<Rightarrow> json option" where
  "own_facilities (JObj ps) = map_of ps ''facilities''"
| "own_facilities (JArr xs ps) = map_of ps ''facilities''"
| "own_facilities v = None"

fun bad_center :: "json \<Rightarrow> bool" where
  "bad_center centerData =
     (centerData = JNull \<or>
      (case own_facilities centerData of
         None \<Rightarrow> False
       | Some (JArr xs qs) \<Rightarrow> list_ex (\<lambda>f. \<not> is_object f) xs
       | Some v \<Rightarrow> truthy v))"

fun unusable :: "json \<Rightarrow> bool" where
  "unusable JNull = True"
| "unusable (JObj ps) = list_ex (\<lambda>c. bad_center (snd c)) ps"
| "unusable (JArr xs ps) = (list_ex bad_center xs \<or> list_ex (\<lambda>c. bad_center (snd c)) ps)"
| "unusable v = False"

section \<open>Sample surroundings\<close>

definition sample_centers :: "(string \<times> json) list" where
  "sample_centers =
     [(''Burnhamthorpe Library'',
       JObj [(''facilities'',
              JArr [JObj [(''id'', JStr ''101''), (''name'', JStr ''Study Room 1'')],
                    JObj [(''id'', JStr ''102''), (''center_name'', JStr ''stale''),
                          (''name'', JStr ''Study Room 2'')]] [])]),
      (''Anchor Hall'', JObj [(''note'', JStr ''closed'')]),
      (''Meadowvale Library'', JObj [(''facilities'', JArr [] [])]),
      (''alpha rink'', JObj [(''facilities'', JArr [JObj [(''id'', JStr ''7'')]] [])])]"

definition sample_catalog :: json where
  "sample_catalog = JObj sample_centers"

definition sample_facilities :: "json list" where
  "sample_facilities =
     [JObj [(''id'', JStr ''101''), (''name'', JStr ''Study Room 1''),
            (''center_name'', JStr ''Burnhamthorpe Library'')],
      JObj [(''id'', JStr ''102''), (''center_name'', JStr ''Burnhamthorpe Library''),
            (''name'', JStr ''Study Room 2'')],
      JObj [(''id'', JStr ''7''), (''center_name'', JStr ''alpha rink'')]]"

definition object_prototype :: "json \<Rightarrow> string \<Rightarrow> bool" where
  "object_prototype v k \<longleftrightarrow>
     k \<in> set [''constructor'', ''toString'', ''valueOf'', ''hasOwnProperty'', ''__proto__'']"

definition calm_world :: world where
  "calm_world =
     \<lparr>launch = Resolved (), newPage = Resolved (), setUserAgent = Resolved (),
      goto = Resolved (),
      page_cookies = Resolved [\<lparr>cookie_name = ''JSESSIONID'', cookie_value = ''abc''\<rparr>,
                               \<lparr>cookie_name = ''locale'', cookie_value = ''en''\<rparr>,
                               \<lparr>cookie_name = ''JSESSIONID'', cookie_value = ''xyz''\<rparr>],
      browser_close = Resolved (), now = 1705300000000,
      axios = (\<lambda>c. Resolved \<lparr>status = 200, statusText = ''OK'',
                               response_data = JObj [(''ok'', JBool True)]\<rparr>),
      catalog_file = Document sample_catalog, inherited = object_prototype\<rparr>"

definition launch_failure :: thrown where
  "launch_failure = ErrorObject ''Failed to launch the browser process''"

definition stale_jar :: service where
  "stale_jar = \<lparr>cookies = [(''JSESSIONID'', ''old'')], facilitiesCache = None\<rparr>"

text \<open>
  The first rejection among the page calls of a refresh, in the order they are awaited
  (\<open>None\<close>: they all resolve, and the cookies are harvested).
\<close>

definition page_failure :: "world \<Rightarrow> thrown option" where
  "page_failure w =
     (case newPage w of Rejected e \<Rightarrow> Some e | Resolved u1 \<Rightarrow>
     (case setUserAgent w of Rejected e \<Rightarrow> Some e | Resolved u2 \<Rightarrow>
     (case goto w of Rejected e \<Rightarrow> Some e | Resolved u3 \<Rightarrow>
     (case page_cookies w of Rejected e \<Rightarrow> Some e | Resolved cs \<Rightarrow> None))))"

definition no_browser_world :: world where
  "no_browser_world = calm_world\<lparr>launch := Rejected launch_failure\<rparr>"




text \<open>
  Two requests that differ at most in the timeout and in the value of the cache-busting
  parameter \<^verbatim>\<open>ui_random\<close>.
\<close>

definition same_but_timeout_and_token :: "config \<Rightarrow> config \<Rightarrow> bool" where
  "same_but_timeout_and_token d k \<longleftrightarrow>
     http_method k = http_method d \<and> url k = url d \<and> headers k = headers d \<and>
     map fst (params k) = map fst (params d) \<and>
     filter (\<lambda>p. fst p \<noteq> ''ui_random'') (params k) =
       filter (\<lambda>p. fst p \<noteq> ''ui_random'') (params d)"

definition zero_body_world :: world where
  "zero_body_world =
     calm_world\<lparr>axios := (\<lambda>c. Resolved \<lparr>status = 200, statusText = ''OK'',
                                           response_data = JNum 0\<rparr>)\<rparr>"

definition missing_file_world :: world where
  "missing_file_world =
     calm_world\<lparr>catalog_file := Unreadable (ErrorObject ''ENOENT: no such file or directory'')\<rparr>"

definition broken_file_world :: world where
  "broken_file_world =
     calm_world\<lparr>catalog_file := NotJson (ErrorObject ''Unexpected end of JSON input'')\<rparr>"

text \<open>
  The object \<^verbatim>\<open>JSON.parse\<close> builds from an object of a JSON text, given as its members in
  the order of the text, each with its parsed value: the members are defined one after
  the other on a new object, so the own-property order puts the array-index names first.
\<close>

definition own_properties :: "(string \<times> json) list \<Rightarrow> (string \<times> json) list" where
  "own_properties members = foldl (\<lambda>ps m. set_prop (fst m) (snd m) ps) [] members"

definition numbered_members :: "(string \<times> json) list" where
  "numbered_members =
     [(''b'', JObj [(''facilities'', JArr [JObj [(''id'', JStr ''1'')]] [])]),
      (''10'', JObj [(''facilities'', JArr [JObj [(''id'', JStr ''2'')]] [])]),
      (''9'', JObj [(''facilities'', JArr [JObj [(''id'', JStr ''3'')]] [])])]"

definition numbered_world :: world where
  "numbered_world = calm_world\<lparr>catalog_file := Document (JObj (own_properties numbered_members))\<rparr>"

definition numbered_facilities :: "json list" where
  "numbered_facilities =
     [JObj [(''id'', JStr ''3''), (''center_name'', JStr ''9'')],
      JObj [(''id'', JStr ''2''), (''center_name'', JStr ''10'')],
      JObj [(''id'', JStr ''1''), (''center_name'', JStr ''b'')]]"

section \<open>Properties of property assignment\<close>

lemma insert_index_keys: "fst ` set (insert_index k v ps) = insert k (fst ` set ps)"
  by (induction ps) auto

lemma insert_index_distinct:
  "k \<notin> fst ` set ps \<Longrightarrow> distinct (map fst ps) \<Longrightarrow> distinct (map fst (insert_index k v ps))"
proof (induction ps)
  case Nil
  then show ?case by simp
next
  case (Cons p ps)
  have "fst p \<notin> fst ` set (insert_index k v ps)"
    using Cons.prems by (auto simp: insert_index_keys)
  with Cons show ?case by auto
qed

lemma map_of_insert_index:
  "k \<notin> fst ` set ps \<Longrightarrow> map_of (insert_index k v ps) = (map_of ps)(k \<mapsto> v)"
proof (induction ps)
  case Nil
  then show ?case by simp
next
  case (Cons p ps)
  then show ?case by (cases p) (auto simp: fun_upd_twist)
qed

lemma replace_keys: "map fst (map (\<lambda>p. if fst p = k then (k, v) else p) ps) = map fst ps"
  by (induction ps) auto

lemma map_of_replace:
  "map_of (map (\<lambda>p. if fst p = k then (k, v) else p) ps) k' =
     (if k' = k \<and> k \<in> fst ` set ps then Some v else map_of ps k')"
  by (induction ps) force+

lemma set_prop_keys: "fst ` set (set_prop k v ps) = insert k (fst ` set ps)"
proof (cases "k \<in> fst ` set ps")
  case True
  have "set (map fst (set_prop k v ps)) = set (map fst ps)"
    using True unfolding set_prop_def by (simp only: set_map replace_keys if_True)
  with True show ?thesis by auto
next
  case False
  then show ?thesis by (auto simp: set_prop_def insert_index_keys)
qed

lemma set_prop_distinct: "distinct (map fst ps) \<Longrightarrow> distinct (map fst (set_prop k v ps))"
proof (cases "k \<in> fst ` set ps")
  case True
  assume "distinct (map fst ps)"
  with True show ?thesis unfolding set_prop_def by (simp only: set_map replace_keys if_True)
next
  case False
  assume "distinct (map fst ps)"
  with False show ?thesis by (auto simp: set_prop_def insert_index_distinct)
qed

lemma map_of_set_prop: "map_of (set_prop k v ps) k' = (if k' = k then Some v else map_of ps k')"
proof (cases "k \<in> fst ` set ps")
  case True
  then show ?thesis unfolding set_prop_def by (simp only: set_map map_of_replace if_True) simp
next
  case False
  then have "map_of ps k = None" by (simp add: map_of_eq_None_iff)
  with False show ?thesis
    by (auto simp: set_prop_def map_of_insert_index map_add_def split: option.splits)
qed

section \<open>Session cookies: what a refresh stores and returns\<close>

lemma harvest_step_keys:
  "fst ` set (foldl (\<lambda>acc c. if cookie_name c = ''__proto__'' then acc
                     else set_prop (cookie_name c) (cookie_value c) acc) acc cs) =
     fst ` set acc \<union> (cookie_name ` set cs - {''__proto__''})"
  by (induction cs arbitrary: acc) (auto simp: set_prop_keys)

lemma harvest_step_distinct:
  "distinct (map fst acc) \<Longrightarrow>
   distinct (map fst (foldl (\<lambda>acc c. if cookie_name c = ''__proto__'' then acc
                     else set_prop (cookie_name c) (cookie_value c) acc) acc cs))"
  by (induction cs arbitrary: acc) (auto simp: set_prop_distinct)

lemma harvest_keys: "fst ` set (harvest cs) = cookie_name ` set cs - {''__proto__''}"
  unfolding harvest_def by (simp add: harvest_step_keys)

lemma harvest_distinct: "distinct (map fst (harvest cs))"
  unfolding harvest_def by (rule harvest_step_distinct) simp

lemma length_harvest: "length (harvest cs) = card (cookie_name ` set cs - {''__proto__''})"
proof -
  have "card (fst ` set (harvest cs)) = length (map fst (harvest cs))"
    using harvest_distinct [of cs] distinct_card [of "map fst (harvest cs)"] by simp
  then show ?thesis by (simp add: harvest_keys)
qed

lemma acquire_harvest:
  "newPage w = Resolved u1 \<Longrightarrow> setUserAgent w = Resolved u2 \<Longrightarrow> goto w = Resolved u3 \<Longrightarrow>
   page_cookies w = Resolved cs \<Longrightarrow>
   acquire w s = (s\<lparr>cookies := harvest cs\<rparr>,
     \<lparr>success = True, data = Some (JBool True), error = None,
      message = Some (''Got '' @ show_nat (length (harvest cs)) @ '' cookies'')\<rparr>)"
  by (simp add: acquire_def Let_def)

lemma acquire_js_harvest:
  "newPage w = Resolved u1 \<Longrightarrow> setUserAgent w = Resolved u2 \<Longrightarrow> goto w = Resolved u3 \<Longrightarrow>
   page_cookies w = Resolved cs \<Longrightarrow>
   acquire_js w s = (s\<lparr>cookies := harvest cs\<rparr>,
     \<lparr>js_success = True, cookieCount = Some (length (harvest cs)), js_error = None\<rparr>)"
  by (simp add: acquire_js_def Let_def)

text \<open>
  C3, as amended. On every successful cookie acquisition (the launch, every page call and
  the close resolve) \<^verbatim>\<open>refreshCookies\<close> of \<^verbatim>\<open>ApiService.ts\<close> returns a success result whose
  \<^verbatim>\<open>data\<close> is the boolean \<^verbatim>\<open>true\<close> and whose \<^verbatim>\<open>message\<close> is \<^verbatim>\<open>Got N cookies\<close>, and
  \<^verbatim>\<open>refreshCookies\<close> of \<^verbatim>\<open>ApiService.js\<close> returns a success result whose \<^verbatim>\<open>cookieCount\<close> is
  \<open>N\<close>, where \<open>N\<close> is the number of entries stored into the cookie jar: the number of
  distinct cookie names harvested, \<^verbatim>\<open>__proto__\<close> apart.
\<close>

theorem refreshCookies_success_payload:
  assumes "launch w = Resolved ()" and "newPage w = Resolved ()"
    and "setUserAgent w = Resolved ()" and "goto w = Resolved ()"
    and "page_cookies w = Resolved cs" and "browser_close w = Resolved ()"
  shows "returned (refreshCookies w s) =
           Inr \<lparr>success = True, data = Some (JBool True), error = None,
                message = Some (''Got '' @
                  show_nat (length (cookies (after (refreshCookies w s)))) @ '' cookies'')\<rparr> \<and>
         returned (refreshCookies_js w s) =
           Inr \<lparr>js_success = True,
                cookieCount = Some (length (cookies (after (refreshCookies_js w s)))),
                js_error = None\<rparr> \<and>
         cookies (after (refreshCookies w s)) = cookies (after (refreshCookies_js w s)) \<and>
         length (cookies (after (refreshCookies w s))) =
           card (cookie_name ` set cs - {''__proto__''})"
  using assms
  by (simp add: refreshCookies_def refreshCookies_js_def acquire_harvest acquire_js_harvest
      length_harvest)

lemma show_nat_2: "show_nat (Suc (Suc 0)) = ''2''"
  by (simp add: show_nat.simps digit_char_def)

lemma harvest_calm:
  "harvest [\<lparr>cookie_name = ''JSESSIONID'', cookie_value = ''abc''\<rparr>,
            \<lparr>cookie_name = ''locale'', cookie_value = ''en''\<rparr>,
            \<lparr>cookie_name = ''JSESSIONID'', cookie_value = ''xyz''\<rparr>] =
     [(''JSESSIONID'', ''xyz''), (''locale'', ''en'')]"
  by (simp add: harvest_def set_prop_def is_array_index_def)

text \<open>
  The statement at a harvest of three cookies, two of one name: two entries are stored.
\<close>

theorem refreshCookies_success_payload_witness:
  "launch calm_world = Resolved () \<and> browser_close calm_world = Resolved () \<and>
   returned (refreshCookies calm_world constructor) =
     Inr \<lparr>success = True, data = Some (JBool True), error = None,
          message = Some ''Got 2 cookies''\<rparr> \<and>
   returned (refreshCookies_js calm_world constructor) =
     Inr \<lparr>js_success = True, cookieCount = Some 2, js_error = None\<rparr> \<and>
   cookies (after (refreshCookies calm_world constructor)) =
     [(''JSESSIONID'', ''xyz''), (''locale'', ''en'')]"
proof -
  have h: "launch calm_world = Resolved ()" "newPage calm_world = Resolved ()"
    "setUserAgent calm_world = Resolved ()" "goto calm_world = Resolved ()"
    "page_cookies calm_world =
       Resolved [\<lparr>cookie_name = ''JSESSIONID'', cookie_value = ''abc''\<rparr>,
                 \<lparr>cookie_name = ''locale'', cookie_value = ''en''\<rparr>,
                 \<lparr>cookie_name = ''JSESSIONID'', cookie_value = ''xyz''\<rparr>]"
    "browser_close calm_world = Resolved ()"
    by (simp_all add: calm_world_def)
  note t = refreshCookies_success_payload [OF h, of constructor]
  have run: "cookies (after (refreshCookies calm_world constructor)) =
      [(''JSESSIONID'', ''xyz''), (''locale'', ''en'')]"
    by (simp add: refreshCookies_def acquire_def calm_world_def harvest_calm)
  have run_js: "cookies (after (refreshCookies_js calm_world constructor)) =
      [(''JSESSIONID'', ''xyz''), (''locale'', ''en'')]"
    by (simp add: refreshCookies_js_def acquire_js_def calm_world_def harvest_calm)
  from t [THEN conjunct1] t [THEN conjunct2, THEN conjunct1] show ?thesis
    by (simp add: h run run_js show_nat_2)
qed

text \<open>
  C3 as stated fails on \<^verbatim>\<open>ApiService.ts\<close>: after a successful acquisition that stores two
  cookies the payload of the result is \<^verbatim>\<open>true\<close>, not the count 2.
\<close>

theorem refreshCookies_payload_is_true:
  "returned (refreshCookies calm_world constructor) =
     Inr \<lparr>success = True, data = Some (JBool True), error = None,
          message = Some ''Got 2 cookies''\<rparr> \<and>
   length (cookies (after (refreshCookies calm_world constructor))) = 2 \<and>
   JBool True \<noteq> JNum 2"
  by (simp add: refreshCookies_def acquire_def calm_world_def harvest_calm show_nat_2)

section \<open>Cookie refresh: failures\<close>

lemma refreshCookies_launch_rejected:
  "launch w = Rejected e \<Longrightarrow>
   refreshCookies w s = \<lparr>after = s, events = [BrowserLaunch], returned = Inl e\<rparr>"
  by (simp add: refreshCookies_def)

lemma acquire_page_failure:
  "page_failure w = Some e \<Longrightarrow> acquire w s = (s, refresh_failure e)"
  by (auto simp: page_failure_def acquire_def split: settled.splits)



lemma refreshCookies_events:
  "events (refreshCookies w s) =
     (case launch w of Rejected e \<Rightarrow> [BrowserLaunch] | Resolved u \<Rightarrow> [BrowserLaunch, BrowserClose])"
  by (simp add: refreshCookies_def split: settled.splits)

text \<open>
  What does hold of C1: once the browser is launched, a rejection of any page call comes
  back as a failure result with the error's message, the jar is untouched and the browser
  is closed; nothing is thrown unless the closing itself rejects.
\<close>

lemma refreshCookies_page_failure:
  "launch w = Resolved u \<Longrightarrow> browser_close w = Resolved u' \<Longrightarrow> page_failure w = Some e \<Longrightarrow>
   refreshCookies w s =
     \<lparr>after = s, events = [BrowserLaunch, BrowserClose],
      returned = Inr \<lparr>success = False, data = None,
                     error = Some (error_message ''Unknown error'' e), message = None\<rparr>\<rparr>"
  by (simp add: refreshCookies_def acquire_page_failure refresh_failure_def)

text \<open>
  C1. The claim fails on the code at a browser launch failure: \<^verbatim>\<open>puppeteer.launch\<close> is
  awaited before the \<^verbatim>\<open>try\<close>, so its rejection is thrown out of \<^verbatim>\<open>refreshCookies\<close> (in
  \<^verbatim>\<open>ApiService.ts\<close> and in \<^verbatim>\<open>ApiService.js\<close>) instead of coming back as a failure result.
\<close>

theorem refreshCookies_launch_failure_escapes:
  "refreshCookies no_browser_world constructor =
     \<lparr>after = constructor, events = [BrowserLaunch], returned = Inl launch_failure\<rparr> \<and>
   refreshCookies_js no_browser_world constructor =
     \<lparr>after = constructor, events = [BrowserLaunch], returned = Inl launch_failure\<rparr>"
  by (simp add: refreshCookies_def refreshCookies_js_def no_browser_world_def calm_world_def)

section \<open>Availability queries: the opening refresh\<close>

lemma ensure_cookies_nonempty:
  "cookies s \<noteq> [] \<Longrightarrow> ensure_cookies w s = \<lparr>after = s, events = [], returned = Inr ()\<rparr>"
  by (simp add: ensure_cookies_def)

lemma ensure_cookies_empty:
  "cookies s = [] \<Longrightarrow>
   after (ensure_cookies w s) = after (refreshCookies w s) \<and>
   events (ensure_cookies w s) = events (refreshCookies w s) \<and>
   returned (ensure_cookies w s) =
     (case returned (refreshCookies w s) of Inl e \<Rightarrow> Inl e | Inr x \<Rightarrow> Inr ())"
  by (simp add: ensure_cookies_def Let_def)

lemma attach_no_cookies: "attach_cookies [] c = c"
  by (simp add: attach_cookies_def)

text \<open>
  What does hold of C2: when the refresh of a query made with an empty jar fails at a page
  call, the request is still sent, without a \<^verbatim>\<open>Cookie\<close> header, and its answer is the
  result; and a query starts exactly one refresh when the jar is empty, none otherwise.
\<close>

lemma getFacilityAvailability_after_failed_refresh:
  assumes "cookies s = []" and "launch w = Resolved u" and "browser_close w = Resolved u'"
    and "page_failure w = Some e"
  shows "getFacilityAvailability w facilityId date s =
     \<lparr>after = s,
      events = [BrowserLaunch, BrowserClose, HttpRequest (daily_config (now w) facilityId date)],
      returned = Inr (answer ''Failed to get facility availability''
                       (axios w (daily_config (now w) facilityId date)))\<rparr>"
  using assms
  by (simp add: getFacilityAvailability_def ensure_cookies_def Let_def
      refreshCookies_page_failure attach_no_cookies)

lemma getFacilityAvailability_refreshes:
  "refreshes (events (getFacilityAvailability w facilityId date s)) =
     (if cookies s = [] then 1 else 0)"
  by (simp add: getFacilityAvailability_def ensure_cookies_def refreshes_def Let_def
      refreshCookies_events split: sum.splits settled.splits)

text \<open>
  C2. The claim fails on the code at a browser launch failure: with an empty jar the
  rejection of \<^verbatim>\<open>puppeteer.launch\<close> leaves \<^verbatim>\<open>refreshCookies\<close> as an exception, the \<^verbatim>\<open>await\<close> in
  \<^verbatim>\<open>getFacilityAvailability\<close> stands before its \<^verbatim>\<open>try\<close>, and the call ends there: no request
  is built or sent.
\<close>

theorem getFacilityAvailability_launch_failure_aborts:
  "cookies constructor = [] \<and>
   getFacilityAvailability no_browser_world ''123'' ''2024-01-15'' constructor =
     \<lparr>after = constructor, events = [BrowserLaunch], returned = Inl launch_failure\<rparr> \<and>
   requests (events (getFacilityAvailability no_browser_world ''123'' ''2024-01-15'' constructor)) = []"
  by (simp add: getFacilityAvailability_def ensure_cookies_def refreshCookies_def
      no_browser_world_def calm_world_def constructor_def)

section \<open>The cookie jar and who changes it\<close>













section \<open>Availability queries: the answer\<close>

lemma ensure_cookies_events:
  "events (ensure_cookies w s) = [] \<or> events (ensure_cookies w s) = [BrowserLaunch] \<or>
   events (ensure_cookies w s) = [BrowserLaunch, BrowserClose]"
  by (simp add: ensure_cookies_def refreshCookies_events Let_def split: settled.splits)

lemma getFacilityAvailability_request:
  assumes "events (getFacilityAvailability w facilityId date s) = evs @ [HttpRequest c]"
  shows "returned (getFacilityAvailability w facilityId date s) =
           Inr (answer ''Failed to get facility availability'' (axios w c))"
proof (cases "returned (ensure_cookies w s)")
  case (Inl e)
  then have "events (getFacilityAvailability w facilityId date s) = events (ensure_cookies w s)"
    by (simp add: getFacilityAvailability_def Let_def)
  with assms ensure_cookies_events [of w s] show ?thesis
    by (auto simp: append_eq_Cons_conv)
next
  case (Inr u)
  then show ?thesis
    using assms by (simp add: getFacilityAvailability_def Let_def)
qed

text \<open>
  C8, as amended. Whenever \<^verbatim>\<open>getFacilityAvailability\<close> sends its request and axios resolves
  it to a response with status 200 and a truthy body (any object or array, a non-empty
  string, a non-zero number, \<^verbatim>\<open>true\<close>), the result is a success whose \<^verbatim>\<open>data\<close> is that body,
  unchanged.
\<close>

theorem availability_passes_truthy_body:
  assumes "events (getFacilityAvailability w facilityId date s) = evs @ [HttpRequest c]"
    and "axios w c = Resolved r" and "status r = 200" and "truthy (response_data r)"
  shows "returned (getFacilityAvailability w facilityId date s) =
           Inr \<lparr>success = True, data = Some (response_data r), error = None, message = None\<rparr>"
  using assms by (simp add: getFacilityAvailability_request answer_def)

lemma show_nat_200: "show_nat 200 = ''200''"
  by (simp add: show_nat.simps digit_char_def)

text \<open>
  C8 as stated fails: a response with status 200 whose body is the JSON number \<^verbatim>\<open>0\<close> is
  not passed through; the test \<^verbatim>\<open>response.data\<close> is falsy and the result is the failure
  \<^verbatim>\<open>HTTP 200: OK\<close>.
\<close>

theorem availability_rejects_falsy_body:
  "axios zero_body_world
     (attach_cookies (cookies stale_jar)
        (daily_config (now zero_body_world) ''123'' ''2024-01-15'')) =
     Resolved \<lparr>status = 200, statusText = ''OK'', response_data = JNum 0\<rparr> \<and>
   returned (getFacilityAvailability zero_body_world ''123'' ''2024-01-15'' stale_jar) =
     Inr \<lparr>success = False, data = None, error = Some ''HTTP 200: OK'', message = None\<rparr>"
  by (simp add: getFacilityAvailability_def ensure_cookies_def zero_body_world_def
      stale_jar_def answer_def show_nat_200 Let_def)

lemma calm_query_events:
  "events (getFacilityAvailability calm_world ''123'' ''2024-01-15'' constructor) =
     [BrowserLaunch, BrowserClose] @
     [HttpRequest (attach_cookies [(''JSESSIONID'', ''xyz''), (''locale'', ''en'')]
        (daily_config 1705300000000 ''123'' ''2024-01-15''))]"
  by (simp add: getFacilityAvailability_def ensure_cookies_def refreshCookies_def acquire_def
      calm_world_def constructor_def harvest_calm Let_def)

text \<open>
  The instance the specification names: a backend answering 200 with \<^verbatim>\<open>{"ok":true}\<close> to
  \<^verbatim>\<open>getFacilityAvailability("123", "2024-01-15")\<close> on a new client.
\<close>

theorem availability_passes_truthy_body_witness:
  "truthy (JObj [(''ok'', JBool True)]) \<and>
   returned (getFacilityAvailability calm_world ''123'' ''2024-01-15'' constructor) =
     Inr \<lparr>success = True, data = Some (JObj [(''ok'', JBool True)]), error = None,
          message = None\<rparr>"
proof -
  have "axios calm_world (attach_cookies [(''JSESSIONID'', ''xyz''), (''locale'', ''en'')]
          (daily_config 1705300000000 ''123'' ''2024-01-15'')) =
        Resolved \<lparr>status = 200, statusText = ''OK'', response_data = JObj [(''ok'', JBool True)]\<rparr>"
    by (simp add: calm_world_def)
  from availability_passes_truthy_body [OF calm_query_events this] show ?thesis
    by simp
qed

section \<open>Availability queries: the request\<close>

lemma acquire_clock: "acquire (w\<lparr>now := t\<rparr>) s = acquire w s"
  by (simp add: acquire_def split: settled.splits)

lemma refreshCookies_clock: "refreshCookies (w\<lparr>now := t\<rparr>) s = refreshCookies w s"
  by (simp add: refreshCookies_def acquire_clock split: settled.splits)

lemma ensure_cookies_clock: "ensure_cookies (w\<lparr>now := t\<rparr>) s = ensure_cookies w s"
  by (simp add: ensure_cookies_def refreshCookies_clock)

lemma requests_append: "requests (evs @ evs') = requests evs @ requests evs'"
  by (induction evs rule: requests.induct) simp_all

lemma requests_ensure_cookies: "requests (events (ensure_cookies w s)) = []"
  using ensure_cookies_events [of w s] by auto

lemma requests_daily:
  "requests (events (getFacilityAvailability w facilityId date s)) =
     (case returned (ensure_cookies w s) of
        Inl e \<Rightarrow> []
      | Inr u \<Rightarrow> [attach_cookies (cookies (after (ensure_cookies w s)))
                    (daily_config (now w) facilityId date)])"
  by (simp add: getFacilityAvailability_def Let_def requests_append requests_ensure_cookies
      split: sum.splits)

lemma requests_weekly:
  "requests (events (getFacilityWeeklyAvailability w facilityId startDate endDate s)) =
     (case returned (ensure_cookies w s) of
        Inl e \<Rightarrow> []
      | Inr u \<Rightarrow> [attach_cookies (cookies (after (ensure_cookies w s)))
                    (weekly_config (now w) facilityId startDate endDate)])"
  by (simp add: getFacilityWeeklyAvailability_def Let_def requests_append
      requests_ensure_cookies split: sum.splits)

lemma daily_weekly_config:
  "same_but_timeout_and_token (attach_cookies jar (daily_config t facilityId date))
     (attach_cookies jar (weekly_config t' facilityId date date)) \<and>
   timeout (attach_cookies jar (daily_config t facilityId date)) = 10000 \<and>
   timeout (attach_cookies jar (weekly_config t' facilityId date date)) = 15000 \<and>
   url (attach_cookies jar (daily_config t facilityId date)) =
     baseUrl @ ''/rest/reservation/resource/availability/daily/'' @ facilityId"
  by (simp add: same_but_timeout_and_token_def attach_cookies_def daily_config_def
      weekly_config_def)

lemma ensure_cookies_returns:
  "(\<exists>u. returned (ensure_cookies w s) = Inr u) \<longleftrightarrow>
     cookies s \<noteq> [] \<or> (launch w = Resolved () \<and> browser_close w = Resolved ())"
  by (auto simp: ensure_cookies_def refreshCookies_def Let_def split: settled.splits)

text \<open>
  C10. Whatever the surroundings and the state of the client, the request
  \<^verbatim>\<open>getFacilityAvailability(facilityId, date)\<close> builds and the request
  \<^verbatim>\<open>getFacilityWeeklyAvailability(facilityId, date, date)\<close> builds (at any other time \<open>t\<close> of the
  clock) go to the same URL, the \<^verbatim>\<open>daily\<close> path of the facility, with the same method, the
  same headers (the \<^verbatim>\<open>Cookie\<close> header included) and the same query parameters but for the
  value of \<^verbatim>\<open>ui_random\<close>; the timeouts are 10000 and 15000. Either call builds one request
  exactly when the jar is non-empty or the opening refresh returns, and none otherwise.
\<close>

theorem weekly_request_is_daily_request:
  "list_all2
     (\<lambda>d k. same_but_timeout_and_token d k \<and> timeout d = 10000 \<and> timeout k = 15000 \<and>
        url d = baseUrl @ ''/rest/reservation/resource/availability/daily/'' @ facilityId)
     (requests (events (getFacilityAvailability w facilityId date s)))
     (requests (events (getFacilityWeeklyAvailability (w\<lparr>now := t\<rparr>) facilityId date date s))) \<and>
   length (requests (events (getFacilityAvailability w facilityId date s))) =
     (if cookies s \<noteq> [] \<or> (launch w = Resolved () \<and> browser_close w = Resolved ())
      then 1 else 0)"
proof (cases "returned (ensure_cookies w s)")
  case (Inl e)
  with ensure_cookies_returns [of w s] show ?thesis
    by (simp add: requests_daily requests_weekly ensure_cookies_clock)
next
  case (Inr u)
  with ensure_cookies_returns [of w s] show ?thesis
    by (simp add: requests_daily requests_weekly ensure_cookies_clock daily_weekly_config)
qed

lemma calm_weekly_events:
  "events (getFacilityWeeklyAvailability (calm_world\<lparr>now := 1705300000999\<rparr>) ''123''
       ''2024-01-15'' ''2024-01-15'' constructor) =
     [BrowserLaunch, BrowserClose,
      HttpRequest (attach_cookies [(''JSESSIONID'', ''xyz''), (''locale'', ''en'')]
        (weekly_config 1705300000999 ''123'' ''2024-01-15'' ''2024-01-15''))]"
  by (simp add: getFacilityWeeklyAvailability_def ensure_cookies_def refreshCookies_def
      acquire_def calm_world_def constructor_def harvest_calm Let_def)

text \<open>The two requests of a new client for facility 123, a second apart.\<close>

theorem weekly_request_is_daily_request_witness:
  "same_but_timeout_and_token
     (attach_cookies [(''JSESSIONID'', ''xyz''), (''locale'', ''en'')]
        (daily_config 1705300000000 ''123'' ''2024-01-15''))
     (attach_cookies [(''JSESSIONID'', ''xyz''), (''locale'', ''en'')]
        (weekly_config 1705300000999 ''123'' ''2024-01-15'' ''2024-01-15'')) \<and>
   timeout (attach_cookies [(''JSESSIONID'', ''xyz''), (''locale'', ''en'')]
        (daily_config 1705300000000 ''123'' ''2024-01-15'')) = 10000 \<and>
   timeout (attach_cookies [(''JSESSIONID'', ''xyz''), (''locale'', ''en'')]
        (weekly_config 1705300000999 ''123'' ''2024-01-15'' ''2024-01-15'')) = 15000 \<and>
   length (requests (events
     (getFacilityAvailability calm_world ''123'' ''2024-01-15'' constructor))) = 1"
  using weekly_request_is_daily_request [of "''123''" calm_world "''2024-01-15''" constructor
      1705300000999]
  by (simp add: calm_query_events calm_weekly_events)

section \<open>The catalog: flattening\<close>

lemma listed_as_assign:
  "listed_as (centerName, JObj ps) (JObj (set_prop ''center_name'' (JStr centerName) ps))"
  by (simp add: listed_as_def map_of_set_prop)

lemma push_all_records:
  "list_all is_record xs \<Longrightarrow>
   \<exists>ys. push_all centerName xs acc = Inr (acc @ ys) \<and>
        list_all2 listed_as (map (Pair centerName) xs) ys"
proof (induction xs arbitrary: acc)
  case Nil
  then show ?case by simp
next
  case (Cons f xs)
  from Cons.prems obtain ps where f: "f = JObj ps" and rest: "list_all is_record xs"
    by (cases f) auto
  let ?f' = "JObj (set_prop ''center_name'' (JStr centerName) ps)"
  from Cons.IH [OF rest, of "acc @ [?f']"] obtain ys
    where ys: "push_all centerName xs (acc @ [?f']) = Inr ((acc @ [?f']) @ ys)"
      and rel: "list_all2 listed_as (map (Pair centerName) xs) ys"
    by blast
  have "push_all centerName (f # xs) acc = Inr (acc @ (?f' # ys))"
    using ys by (simp add: f)
  moreover have "list_all2 listed_as (map (Pair centerName) (f # xs)) (?f' # ys)"
    using rel by (simp add: f listed_as_assign)
  ultimately show ?case by blast
qed

lemma center_step:
  assumes "is_center centerData"
  shows "\<exists>x. facilities_of centerData = Inr x \<and>
           (\<exists>ys. for_of centerName (or_empty x) acc = Inr (acc @ ys) \<and>
                 list_all2 listed_as (map (Pair centerName) (resources centerData)) ys)"
proof -
  from assms obtain ps where c: "centerData = JObj ps"
    by (cases centerData) auto
  show ?thesis
  proof (cases "map_of ps ''facilities''")
    case None
    then show ?thesis by (simp add: c or_empty_def)
  next
    case (Some v)
    with assms c obtain xs qs where v: "v = JArr xs qs" and recs: "list_all is_record xs"
      by (cases v) auto
    from push_all_records [OF recs, of centerName acc] Some v show ?thesis
      by (simp add: c or_empty_def)
  qed
qed

lemma collect_catalog:
  "list_all (\<lambda>c. is_center (snd c)) centers \<Longrightarrow>
   \<exists>ys. collect centers acc = Inr (acc @ ys) \<and> list_all2 listed_as (listing centers) ys"
proof (induction centers arbitrary: acc)
  case Nil
  then show ?case by (simp add: listing_def)
next
  case (Cons c centers)
  obtain centerName centerData where c: "c = (centerName, centerData)"
    by (cases c)
  from Cons.prems c have ok: "is_center centerData"
    and rest: "list_all (\<lambda>c. is_center (snd c)) centers"
    by simp_all
  from center_step [OF ok, of centerName acc] obtain x ys
    where x: "facilities_of centerData = Inr x"
      and ys: "for_of centerName (or_empty x) acc = Inr (acc @ ys)"
      and rel: "list_all2 listed_as (map (Pair centerName) (resources centerData)) ys"
    by blast
  from Cons.IH [OF rest, of "acc @ ys"] obtain zs
    where zs: "collect centers (acc @ ys) = Inr ((acc @ ys) @ zs)"
      and rel': "list_all2 listed_as (listing centers) zs"
    by blast
  have "collect (c # centers) acc = Inr (acc @ (ys @ zs))"
    by (simp add: c x ys zs)
  moreover have "list_all2 listed_as (listing (c # centers)) (ys @ zs)"
    using rel rel' by (simp add: c listing_def list_all2_appendI)
  ultimately show ?case by blast
qed

lemma length_listing:
  "length (listing centers) = sum_list (map (\<lambda>c. length (resources (snd c))) centers)"
  by (induction centers) (auto simp: listing_def)

text \<open>
  On a parsed document of the shape of the interface \<^verbatim>\<open>FacilitiesJson\<close> the loops succeed
  with one record for each resource, in the order of the entries of the parsed object.
\<close>

lemma getAllFacilities_of_entries:
  assumes "catalog_file w = Document (JObj centers)"
    and "list_all (\<lambda>c. is_center (snd c)) centers"
  shows "\<exists>out. returned (getAllFacilities w s) =
                 Inr \<lparr>success = True, data = Some (JArr out []), error = None,
                      message = None\<rparr> \<and>
               returned (getAllFacilities_js w s) = Inr (JArr out []) \<and>
               list_all2 listed_as (listing centers) out \<and>
               length out = sum_list (map (\<lambda>c. length (resources (snd c))) centers)"
proof -
  from collect_catalog [OF assms(2), of "[]"] obtain out
    where run: "collect centers [] = Inr out" and rel: "list_all2 listed_as (listing centers) out"
    by auto
  from rel have "length out = length (listing centers)"
    by (simp add: list_all2_lengthD)
  with run rel assms(1) show ?thesis
    by (simp add: getAllFacilities_def getAllFacilities_js_def load_all_def length_listing)
qed

lemma assign_sample:
  "set_prop ''center_name'' v [(''id'', a), (''name'', b)] =
     [(''id'', a), (''name'', b), (''center_name'', v)]"
  "set_prop ''center_name'' v [(''id'', a), (''center_name'', c), (''name'', b)] =
     [(''id'', a), (''center_name'', v), (''name'', b)]"
  "set_prop ''center_name'' v [(''id'', a)] = [(''id'', a), (''center_name'', v)]"
  by (simp_all add: set_prop_def is_array_index_def)

lemma collect_sample: "collect sample_centers [] = Inr sample_facilities"
  by (simp add: sample_centers_def sample_facilities_def or_empty_def assign_sample)

section \<open>The catalog: the order of the centers\<close>

lemma insert_index_set: "set (insert_index k v ps) = insert (k, v) (set ps)"
  by (induction ps) auto

lemma insert_index_append:
  "list_all (\<lambda>c. \<not> is_array_index (fst c)) N \<Longrightarrow>
   insert_index k v (I @ N) = insert_index k v I @ N"
  by (induction I) (cases N; auto)+

lemma insert_index_all_index:
  "is_array_index k \<Longrightarrow> list_all (\<lambda>c. is_array_index (fst c)) I \<Longrightarrow>
   list_all (\<lambda>c. is_array_index (fst c)) (insert_index k v I)"
  by (induction I) auto

lemma insert_index_sorted:
  "sorted (map (\<lambda>c. index_value (fst c)) I) \<Longrightarrow> list_all (\<lambda>c. is_array_index (fst c)) I \<Longrightarrow>
   sorted (map (\<lambda>c. index_value (fst c)) (insert_index k v I))"
  by (induction I) (auto simp: insert_index_set)

lemma insert_index_sum:
  "sum_list (map f (insert_index k v ps)) = f (k, v) + sum_list (map f ps)"
  for f :: "string \<times> 'a \<Rightarrow> nat"
  by (induction ps) auto

lemma set_prop_new:
  "k \<notin> fst ` set ps \<Longrightarrow>
   set_prop k v ps = (if is_array_index k then insert_index k v ps else ps @ [(k, v)])"
  by (simp add: set_prop_def)

lemma sum_list_partition:
  "sum_list (map f (filter P xs)) + sum_list (map f (filter (\<lambda>x. \<not> P x) xs)) =
     sum_list (map f xs)"
  for f :: "'a \<Rightarrow> nat"
  by (induction xs) auto

lemma own_properties_invariant:
  fixes f :: "string \<times> json \<Rightarrow> nat"
  assumes "list_all (\<lambda>c. is_array_index (fst c)) I"
    and "list_all (\<lambda>c. \<not> is_array_index (fst c)) N"
    and "sorted (map (\<lambda>c. index_value (fst c)) I)"
    and "distinct (map fst ms)"
    and "fst ` set ms \<inter> fst ` set (I @ N) = {}"
  shows "\<exists>I'. foldl (\<lambda>ps m. set_prop (fst m) (snd m) ps) (I @ N) ms =
                 I' @ N @ filter (\<lambda>c. \<not> is_array_index (fst c)) ms \<and>
              list_all (\<lambda>c. is_array_index (fst c)) I' \<and>
              sorted (map (\<lambda>c. index_value (fst c)) I') \<and>
              set I' = set I \<union> set (filter (\<lambda>c. is_array_index (fst c)) ms) \<and>
              sum_list (map f I') =
                sum_list (map f I) + sum_list (map f (filter (\<lambda>c. is_array_index (fst c)) ms))"
  using assms
proof (induction ms arbitrary: I N)
  case Nil
  then show ?case by simp
next
  case (Cons m ms)
  obtain k v where m: "m = (k, v)" by (cases m)
  from Cons.prems(5) m have fresh: "k \<notin> fst ` set (I @ N)"
    by auto
  from Cons.prems(4) have dist: "distinct (map fst ms)" and knew: "k \<notin> fst ` set ms"
    by (auto simp: m)
  show ?case
  proof (cases "is_array_index k")
    case True
    let ?I = "insert_index k v I"
    have step: "set_prop k v (I @ N) = ?I @ N"
      using fresh True Cons.prems(2) by (simp add: set_prop_new insert_index_append)
    have disj: "fst ` set ms \<inter> fst ` set (?I @ N) = {}"
      using Cons.prems(5) knew by (auto simp: insert_index_set m)
    from Cons.IH [OF insert_index_all_index [OF True Cons.prems(1)] Cons.prems(2)
        insert_index_sorted [OF Cons.prems(3) Cons.prems(1)] dist disj]
    obtain I' where
      "foldl (\<lambda>ps m. set_prop (fst m) (snd m) ps) (?I @ N) ms =
         I' @ N @ filter (\<lambda>c. \<not> is_array_index (fst c)) ms"
      "list_all (\<lambda>c. is_array_index (fst c)) I'"
      "sorted (map (\<lambda>c. index_value (fst c)) I')"
      "set I' = set ?I \<union> set (filter (\<lambda>c. is_array_index (fst c)) ms)"
      "sum_list (map f I') =
         sum_list (map f ?I) + sum_list (map f (filter (\<lambda>c. is_array_index (fst c)) ms))"
      by blast
    with True step show ?thesis
      by (intro exI [of _ I']) (auto simp: m insert_index_set insert_index_sum)
  next
    case False
    have step: "set_prop k v (I @ N) = I @ (N @ [(k, v)])"
      using fresh False by (simp add: set_prop_new)
    have disj: "fst ` set ms \<inter> fst ` set (I @ (N @ [(k, v)])) = {}"
      using Cons.prems(5) knew by (auto simp: m)
    have nidx: "list_all (\<lambda>c. \<not> is_array_index (fst c)) (N @ [(k, v)])"
      using Cons.prems(2) False by simp
    from Cons.IH [OF Cons.prems(1) nidx Cons.prems(3) dist disj]
    obtain I' where
      "foldl (\<lambda>ps m. set_prop (fst m) (snd m) ps) (I @ (N @ [(k, v)])) ms =
         I' @ (N @ [(k, v)]) @ filter (\<lambda>c. \<not> is_array_index (fst c)) ms"
      "list_all (\<lambda>c. is_array_index (fst c)) I'"
      "sorted (map (\<lambda>c. index_value (fst c)) I')"
      "set I' = set I \<union> set (filter (\<lambda>c. is_array_index (fst c)) ms)"
      "sum_list (map f I') =
         sum_list (map f I) + sum_list (map f (filter (\<lambda>c. is_array_index (fst c)) ms))"
      by blast
    with False step show ?thesis
      by (intro exI [of _ I']) (auto simp: m)
  qed
qed

lemma own_properties_shape:
  fixes f :: "string \<times> json \<Rightarrow> nat"
  assumes "distinct (map fst members)"
  shows "\<exists>I. own_properties members = I @ filter (\<lambda>c. \<not> is_array_index (fst c)) members \<and>
             list_all (\<lambda>c. is_array_index (fst c)) I \<and>
             sorted (map (\<lambda>c. index_value (fst c)) I) \<and>
             set I = set (filter (\<lambda>c. is_array_index (fst c)) members) \<and>
             sum_list (map f I) =
               sum_list (map f (filter (\<lambda>c. is_array_index (fst c)) members))"
  using own_properties_invariant [of "[]" "[]" members f] assms
  by (simp add: own_properties_def)

lemma filter_all: "list_all P xs \<Longrightarrow> filter P xs = xs"
  by (induction xs) auto

lemma filter_none: "list_all (\<lambda>x. \<not> P x) xs \<Longrightarrow> filter P xs = []"
  by (induction xs) auto

lemma own_properties_order:
  assumes "distinct (map fst members)"
  shows "set (own_properties members) = set members \<and>
         filter (\<lambda>c. \<not> is_array_index (fst c)) (own_properties members) =
           filter (\<lambda>c. \<not> is_array_index (fst c)) members \<and>
         own_properties members =
           filter (\<lambda>c. is_array_index (fst c)) (own_properties members) @
           filter (\<lambda>c. \<not> is_array_index (fst c)) (own_properties members) \<and>
         sorted (map (\<lambda>c. index_value (fst c))
           (filter (\<lambda>c. is_array_index (fst c)) (own_properties members))) \<and>
         sum_list (map (\<lambda>c. length (resources (snd c))) (own_properties members)) =
           sum_list (map (\<lambda>c. length (resources (snd c))) members)"
proof -
  let ?idx = "\<lambda>c::string \<times> json. is_array_index (fst c)"
  let ?N = "filter (\<lambda>c. \<not> ?idx c) members"
  let ?f = "\<lambda>c::string \<times> json. length (resources (snd c))"
  from own_properties_shape [OF assms, of ?f] obtain I
    where P: "own_properties members = I @ ?N" and I: "list_all ?idx I"
      and srt: "sorted (map (\<lambda>c. index_value (fst c)) I)"
      and setI: "set I = set (filter ?idx members)"
      and sumI: "sum_list (map ?f I) = sum_list (map ?f (filter ?idx members))"
    by blast
  have N: "list_all (\<lambda>c. \<not> ?idx c) ?N"
    by (simp add: list_all_iff)
  have fI: "filter ?idx I = I" "filter (\<lambda>c. \<not> ?idx c) I = []"
    using I by (simp_all add: filter_all filter_none)
  have fN: "filter ?idx ?N = []" "filter (\<lambda>c. \<not> ?idx c) ?N = ?N"
    by simp_all
  have "set (own_properties members) = set members"
    unfolding P using setI by auto
  moreover have "filter (\<lambda>c. \<not> ?idx c) (own_properties members) = ?N"
    unfolding P by (simp only: filter_append fI fN append_Nil)
  moreover have "filter ?idx (own_properties members) = I"
    unfolding P by (simp only: filter_append fI fN append_Nil2)
  moreover have "sum_list (map ?f (own_properties members)) = sum_list (map ?f members)"
    unfolding P using sumI sum_list_partition [of ?f ?idx members] by simp
  ultimately show ?thesis
    using P srt by simp
qed

text \<open>
  C4, as amended. For every catalog document with distinct center names, each center an
  object whose \<^verbatim>\<open>facilities\<close>, when present, is an array of records, \<^verbatim>\<open>getAllFacilities\<close>
  succeeds, in \<^verbatim>\<open>ApiService.ts\<close> and in \<^verbatim>\<open>ApiService.js\<close>, with exactly one record for each
  resource of the document: \<open>M\<close> records for \<open>M\<close> resources in all. They are the
  concatenation over the centers in the own-property order of the parsed document: the
  centers whose names are array indices first, in ascending numeric order, then all other
  centers in document order; so in document order whenever no center name is an array
  index. Each record returned carries as \<^verbatim>\<open>center_name\<close> the key of the center it is
  listed under, whether or not the raw record had such a field, and is the raw record in
  every other field.
\<close>

theorem getAllFacilities_flattens:
  assumes "distinct (map fst members)"
    and "list_all (\<lambda>c. is_center (snd c)) members"
    and "catalog_file w = Document (JObj (own_properties members))"
  shows "\<exists>out. returned (getAllFacilities w s) =
                 Inr \<lparr>success = True, data = Some (JArr out []), error = None,
                      message = None\<rparr> \<and>
               returned (getAllFacilities_js w s) = Inr (JArr out []) \<and>
               list_all2 listed_as (listing (own_properties members)) out \<and>
               length out = sum_list (map (\<lambda>c. length (resources (snd c))) members) \<and>
               set (own_properties members) = set members \<and>
               own_properties members =
                 filter (\<lambda>c. is_array_index (fst c)) (own_properties members) @
                 filter (\<lambda>c. \<not> is_array_index (fst c)) members \<and>
               sorted (map (\<lambda>c. index_value (fst c))
                 (filter (\<lambda>c. is_array_index (fst c)) (own_properties members))) \<and>
               (list_all (\<lambda>c. \<not> is_array_index (fst c)) members \<longrightarrow>
                  own_properties members = members)"
proof -
  note ord = own_properties_order [OF assms(1)]
  from ord assms(2) have shape: "list_all (\<lambda>c. is_center (snd c)) (own_properties members)"
    by (simp add: list_all_iff)
  from getAllFacilities_of_entries [OF assms(3) shape, of s] obtain out
    where out: "returned (getAllFacilities w s) =
                 Inr \<lparr>success = True, data = Some (JArr out []), error = None,
                      message = None\<rparr>"
      "returned (getAllFacilities_js w s) = Inr (JArr out [])"
      "list_all2 listed_as (listing (own_properties members)) out"
      "length out =
         sum_list (map (\<lambda>c. length (resources (snd c))) (own_properties members))"
    by blast
  have plain: "list_all (\<lambda>c. \<not> is_array_index (fst c)) members \<longrightarrow>
      own_properties members = members"
  proof
    assume a: "list_all (\<lambda>c. \<not> is_array_index (fst c)) members"
    then have "list_all (\<lambda>c. \<not> is_array_index (fst c)) (own_properties members)"
      using ord by (simp add: list_all_iff)
    then have none: "filter (\<lambda>c. is_array_index (fst c)) (own_properties members) = []"
      by (rule filter_none)
    have "own_properties members =
        filter (\<lambda>c. is_array_index (fst c)) (own_properties members) @
        filter (\<lambda>c. \<not> is_array_index (fst c)) (own_properties members)"
      using ord by blast
    also have "\<dots> = filter (\<lambda>c. \<not> is_array_index (fst c)) members"
      using ord by (simp only: none append_Nil)
    also have "\<dots> = members"
      using a by (rule filter_all)
    finally show "own_properties members = members" .
  qed
  have split: "own_properties members =
      filter (\<lambda>c. is_array_index (fst c)) (own_properties members) @
      filter (\<lambda>c. \<not> is_array_index (fst c)) members"
    using ord by metis
  have count: "length out = sum_list (map (\<lambda>c. length (resources (snd c))) members)"
    using out(4) ord by simp
  from ord have same: "set (own_properties members) = set members"
    and srt: "sorted (map (\<lambda>c. index_value (fst c))
       (filter (\<lambda>c. is_array_index (fst c)) (own_properties members)))"
    by blast+
  from out(1-3) count same split srt plain show ?thesis
    by blast
qed

lemma numbered_properties:
  "own_properties numbered_members =
     [(''9'', JObj [(''facilities'', JArr [JObj [(''id'', JStr ''3'')]] [])]),
      (''10'', JObj [(''facilities'', JArr [JObj [(''id'', JStr ''2'')]] [])]),
      (''b'', JObj [(''facilities'', JArr [JObj [(''id'', JStr ''1'')]] [])])]"
  by (simp add: own_properties_def numbered_members_def set_prop_def is_array_index_def
      index_value_def)

lemma sample_properties: "own_properties sample_centers = sample_centers"
  by (simp add: own_properties_def sample_centers_def set_prop_def is_array_index_def)

lemma numbered_run:
  "returned (getAllFacilities numbered_world constructor) =
     Inr \<lparr>success = True, data = Some (JArr numbered_facilities []), error = None,
          message = None\<rparr>"
  by (simp add: getAllFacilities_def load_all_def numbered_world_def numbered_properties
      numbered_facilities_def or_empty_def assign_sample)

text \<open>
  C4 as stated fails: on a document that lists the centers \<^verbatim>\<open>b\<close>, \<^verbatim>\<open>10\<close>, \<^verbatim>\<open>9\<close> in this
  order the records come back for \<^verbatim>\<open>9\<close>, \<^verbatim>\<open>10\<close>, \<^verbatim>\<open>b\<close>, which is not the concatenation in
  document order.
\<close>

theorem getAllFacilities_follows_property_order:
  "map fst numbered_members = [''b'', ''10'', ''9''] \<and>
   returned (getAllFacilities numbered_world constructor) =
     Inr \<lparr>success = True, data = Some (JArr numbered_facilities []), error = None,
          message = None\<rparr> \<and>
   map (field ''center_name'') numbered_facilities =
     [Some (JStr ''9''), Some (JStr ''10''), Some (JStr ''b'')] \<and>
   \<not> list_all2 listed_as (listing numbered_members) numbered_facilities"
  by (simp add: numbered_run) (simp add: numbered_members_def numbered_facilities_def
      listing_def listed_as_def)

text \<open>
  The document of the centers \<^verbatim>\<open>b\<close>, \<^verbatim>\<open>10\<close>, \<^verbatim>\<open>9\<close>, and the sample catalog of four centers
  and three resources, where one raw record carries a stale \<^verbatim>\<open>center_name\<close> that the loader
  overwrites in place.
\<close>

theorem getAllFacilities_flattens_witness:
  "distinct (map fst numbered_members) \<and>
   returned (getAllFacilities numbered_world constructor) =
     Inr \<lparr>success = True, data = Some (JArr numbered_facilities []), error = None,
          message = None\<rparr> \<and>
   list_all2 listed_as (listing (own_properties numbered_members)) numbered_facilities \<and>
   map fst (own_properties numbered_members) = [''9'', ''10'', ''b''] \<and>
   returned (getAllFacilities calm_world constructor) =
     Inr \<lparr>success = True, data = Some (JArr sample_facilities []), error = None,
          message = None\<rparr> \<and>
   list_all2 listed_as (listing sample_centers) sample_facilities \<and>
   length sample_facilities = 3"
proof -
  have keys: "distinct (map fst numbered_members)"
    and shape: "list_all (\<lambda>c. is_center (snd c)) numbered_members"
    by (simp_all add: numbered_members_def)
  have doc: "catalog_file numbered_world = Document (JObj (own_properties numbered_members))"
    by (simp add: numbered_world_def)
  from getAllFacilities_flattens [OF keys shape doc, of constructor] obtain out
    where "returned (getAllFacilities numbered_world constructor) =
             Inr \<lparr>success = True, data = Some (JArr out []), error = None, message = None\<rparr>"
      and rel: "list_all2 listed_as (listing (own_properties numbered_members)) out"
    by blast
  with numbered_run have out: "out = numbered_facilities" by simp
  have keys': "distinct (map fst sample_centers)"
    and shape': "list_all (\<lambda>c. is_center (snd c)) sample_centers"
    by (simp_all add: sample_centers_def)
  have doc': "catalog_file calm_world = Document (JObj (own_properties sample_centers))"
    by (simp add: calm_world_def sample_catalog_def sample_properties)
  have run': "returned (getAllFacilities calm_world constructor) =
     Inr \<lparr>success = True, data = Some (JArr sample_facilities []), error = None,
          message = None\<rparr>"
    by (simp add: getAllFacilities_def load_all_def calm_world_def sample_catalog_def
        collect_sample)
  from getAllFacilities_flattens [OF keys' shape' doc', of constructor] obtain out'
    where "returned (getAllFacilities calm_world constructor) =
             Inr \<lparr>success = True, data = Some (JArr out' []), error = None, message = None\<rparr>"
      and rel': "list_all2 listed_as (listing (own_properties sample_centers)) out'"
    by blast
  with run' have out': "out' = sample_facilities" by simp
  from rel out rel' out' keys numbered_run run' show ?thesis
    by (simp add: sample_properties numbered_properties) (simp add: sample_facilities_def)
qed

section \<open>The catalog: one center\<close>

lemma forEach_empty: "forEach centerName (JArr [] qs) = Inr (JArr [] qs)"
  by simp

text \<open>
  C5. For every catalog document and every center name that is falsy (the empty string),
  or absent from the document, or present with a missing or empty \<^verbatim>\<open>facilities\<close> list,
  \<^verbatim>\<open>getFacilitiesByCenter\<close> returns the success with the empty list and changes nothing:
  the same value in each case, so the caller cannot tell the cases apart. This holds
  whatever the prototype chain provides under an absent name.
\<close>

theorem getFacilitiesByCenter_nothing:
  assumes "catalog_file w = Document (JObj centers)"
    and "centerName = [] \<or> map_of centers centerName = None \<or>
         (\<exists>ps. map_of centers centerName = Some (JObj ps) \<and>
               (map_of ps ''facilities'' = None \<or>
                map_of ps ''facilities'' = Some (JArr [] [])))"
  shows "getFacilitiesByCenter w centerName s =
           \<lparr>after = s, events = [],
            returned = Inr \<lparr>success = True, data = Some (JArr [] []), error = None,
                           message = None\<rparr>\<rparr>"
proof -
  have "load_center w centerName = Inr (JArr [] [])"
    using assms by (auto simp: load_center_def or_empty_def)
  then show ?thesis by (simp add: getFacilitiesByCenter_def)
qed

lemma sample_lookup:
  "map_of sample_centers ''Nowhere'' = None"
  "map_of sample_centers ''constructor'' = None"
  "map_of sample_centers ''Anchor Hall'' = Some (JObj [(''note'', JStr ''closed'')])"
  "map_of sample_centers ''Meadowvale Library'' = Some (JObj [(''facilities'', JArr [] [])])"
  by (simp_all add: sample_centers_def)

text \<open>
  The five cases on the sample catalog: the empty name, an absent name, an absent name
  that the prototype chain provides, a center without a list, a center with an empty list.
\<close>

theorem getFacilitiesByCenter_nothing_witness:
  "returned (getFacilitiesByCenter calm_world '''' constructor) =
     Inr \<lparr>success = True, data = Some (JArr [] []), error = None, message = None\<rparr> \<and>
   returned (getFacilitiesByCenter calm_world ''Nowhere'' constructor) =
     Inr \<lparr>success = True, data = Some (JArr [] []), error = None, message = None\<rparr> \<and>
   inherited calm_world sample_catalog ''constructor'' \<and>
   returned (getFacilitiesByCenter calm_world ''constructor'' constructor) =
     Inr \<lparr>success = True, data = Some (JArr [] []), error = None, message = None\<rparr> \<and>
   returned (getFacilitiesByCenter calm_world ''Anchor Hall'' constructor) =
     Inr \<lparr>success = True, data = Some (JArr [] []), error = None, message = None\<rparr> \<and>
   returned (getFacilitiesByCenter calm_world ''Meadowvale Library'' constructor) =
     Inr \<lparr>success = True, data = Some (JArr [] []), error = None, message = None\<rparr>"
proof -
  have doc: "catalog_file calm_world = Document (JObj sample_centers)"
    by (simp add: calm_world_def sample_catalog_def)
  note t = getFacilitiesByCenter_nothing [OF doc, of _ constructor]
  have 1: "returned (getFacilitiesByCenter calm_world '''' constructor) =
     Inr \<lparr>success = True, data = Some (JArr [] []), error = None, message = None\<rparr>"
    by (simp add: t [of "''''"])
  have 2: "returned (getFacilitiesByCenter calm_world ''Nowhere'' constructor) =
     Inr \<lparr>success = True, data = Some (JArr [] []), error = None, message = None\<rparr>"
    by (simp add: t [of "''Nowhere''"] sample_lookup)
  have 3: "returned (getFacilitiesByCenter calm_world ''constructor'' constructor) =
     Inr \<lparr>success = True, data = Some (JArr [] []), error = None, message = None\<rparr>"
    by (simp add: t [of "''constructor''"] sample_lookup)
  have 4: "returned (getFacilitiesByCenter calm_world ''Anchor Hall'' constructor) =
     Inr \<lparr>success = True, data = Some (JArr [] []), error = None, message = None\<rparr>"
    by (simp add: t [of "''Anchor Hall''"] sample_lookup)
  have 5: "returned (getFacilitiesByCenter calm_world ''Meadowvale Library'' constructor) =
     Inr \<lparr>success = True, data = Some (JArr [] []), error = None, message = None\<rparr>"
    by (simp add: t [of "''Meadowvale Library''"] sample_lookup)
  have "inherited calm_world sample_catalog ''constructor''"
    by (simp add: calm_world_def object_prototype_def)
  with 1 2 3 4 5 show ?thesis by simp
qed

section \<open>The catalog: the centers\<close>

text \<open>
  C6. For every catalog document (an object; its keys are distinct, as the keys of a
  parsed object are) \<^verbatim>\<open>getUniqueCenters\<close> succeeds, changes nothing, and returns exactly the
  top-level keys of the document, in ascending lexicographic order of their code units
  (so case-sensitive) and without duplicates.
\<close>

theorem getUniqueCenters_sorted_keys:
  assumes "catalog_file w = Document (JObj centers)" and "distinct (map fst centers)"
  shows "\<exists>ks. getUniqueCenters w s =
                \<lparr>after = s, events = [],
                 returned = Inr \<lparr>success = True, data = Some (JArr (map JStr ks) []),
                                error = None, message = None\<rparr>\<rparr> \<and>
              set ks = set (map fst centers) \<and> length ks = length centers \<and>
              sorted ks \<and> distinct ks"
proof -
  let ?ks = "sort (map fst centers)"
  have "sorted_keys (catalog_file w) = Inr ?ks"
    using assms(1) by (simp add: sorted_keys_def)
  then have "getUniqueCenters w s =
                \<lparr>after = s, events = [],
                 returned = Inr \<lparr>success = True, data = Some (JArr (map JStr ?ks) []),
                                error = None, message = None\<rparr>\<rparr>"
    by (simp add: getUniqueCenters_def)
  moreover have "set ?ks = set (map fst centers)" "length ?ks = length centers"
    "sorted ?ks" "distinct ?ks"
    using assms(2) by simp_all
  ultimately show ?thesis by blast
qed

lemma sample_sorted:
  "sorted [''Anchor Hall'', ''Burnhamthorpe Library'', ''Meadowvale Library'', ''alpha rink'']"
  by (simp add: less_eq_char_def less_char_def)

lemma sample_keys:
  "map fst sample_centers = [''Burnhamthorpe Library'', ''Anchor Hall'', ''Meadowvale Library'', ''alpha rink'']"
  by (simp add: sample_centers_def)

text \<open>
  The sample catalog: the keys come back sorted, the upper-case initials before the
  lower-case one.
\<close>

theorem getUniqueCenters_sorted_keys_witness:
  "distinct (map fst sample_centers) \<and>
   returned (getUniqueCenters calm_world constructor) =
     Inr \<lparr>success = True,
          data = Some (JArr [JStr ''Anchor Hall'', JStr ''Burnhamthorpe Library'',
                             JStr ''Meadowvale Library'', JStr ''alpha rink''] []),
          error = None, message = None\<rparr> \<and>
   ''Meadowvale Library'' < ''alpha rink''"
proof -
  have doc: "catalog_file calm_world = Document (JObj sample_centers)"
    by (simp add: calm_world_def sample_catalog_def)
  have keys: "distinct (map fst sample_centers)"
    by (simp add: sample_keys)
  from getUniqueCenters_sorted_keys [OF doc keys, of constructor] obtain ks
    where run: "getUniqueCenters calm_world constructor =
                \<lparr>after = constructor, events = [],
                 returned = Inr \<lparr>success = True, data = Some (JArr (map JStr ks) []),
                                error = None, message = None\<rparr>\<rparr>"
      and ks: "set ks = set (map fst sample_centers)" "sorted ks" "distinct ks"
    by blast
  have "ks = [''Anchor Hall'', ''Burnhamthorpe Library'', ''Meadowvale Library'', ''alpha rink'']"
  proof (rule sorted_distinct_set_unique)
    show "set ks =
        set [''Anchor Hall'', ''Burnhamthorpe Library'', ''Meadowvale Library'', ''alpha rink'']"
      using ks(1) by (auto simp: sample_keys)
    show "distinct
        [''Anchor Hall'', ''Burnhamthorpe Library'', ''Meadowvale Library'', ''alpha rink'']"
      by simp
  qed (simp_all add: ks sample_sorted)
  with run keys show ?thesis
    by (simp add: less_char_def)
qed

section \<open>The catalog: documents that fail\<close>

lemma push_all_outcome:
  "(list_ex (\<lambda>f. \<not> is_object f) xs \<longrightarrow> push_all centerName xs acc = Inl type_error) \<and>
   (\<not> list_ex (\<lambda>f. \<not> is_object f) xs \<longrightarrow> (\<exists>ys. push_all centerName xs acc = Inr ys))"
proof (induction xs arbitrary: acc)
  case Nil
  then show ?case by simp
next
  case (Cons f xs)
  show ?case
  proof (cases "is_object f")
    case True
    then obtain f' where "assign_center_name centerName f = Inr f'"
      by (cases f) auto
    with True Cons.IH [of "acc @ [f']"] show ?thesis by simp
  next
    case False
    then have "assign_center_name centerName f = Inl type_error"
      by (cases f) auto
    with False show ?thesis by simp
  qed
qed

lemma center_outcome:
  "(bad_center centerData \<longrightarrow>
      (case facilities_of centerData of Inl e \<Rightarrow> Inl e
       | Inr x \<Rightarrow> for_of centerName (or_empty x) acc) = Inl type_error) \<and>
   (\<not> bad_center centerData \<longrightarrow>
      (\<exists>ys. (case facilities_of centerData of Inl e \<Rightarrow> Inl e
             | Inr x \<Rightarrow> for_of centerName (or_empty x) acc) = Inr ys))"
proof (cases "own_facilities centerData")
  case None
  then show ?thesis by (cases centerData) (auto simp: or_empty_def)
next
  case (Some v)
  then have own: "facilities_of centerData = Inr (Some v)" and notnull: "centerData \<noteq> JNull"
    by (cases centerData; simp)+
  show ?thesis
  proof (cases v)
    case (JArr xs qs)
    with Some own notnull push_all_outcome [of xs centerName acc] show ?thesis
      by (simp add: or_empty_def)
  qed (use Some own notnull in \<open>auto simp: or_empty_def\<close>)
qed

lemma collect_outcome:
  "(list_ex (\<lambda>c. bad_center (snd c)) centers \<longrightarrow> collect centers acc = Inl type_error) \<and>
   (\<not> list_ex (\<lambda>c. bad_center (snd c)) centers \<longrightarrow> (\<exists>ys. collect centers acc = Inr ys))"
proof (induction centers arbitrary: acc)
  case Nil
  then show ?case by simp
next
  case (Cons c centers)
  obtain centerName centerData where c: "c = (centerName, centerData)"
    by (cases c)
  let ?step = "case facilities_of centerData of Inl e \<Rightarrow> Inl e
       | Inr x \<Rightarrow> for_of centerName (or_empty x) acc"
  have unfold: "collect (c # centers) acc =
      (case ?step of Inl e \<Rightarrow> Inl e | Inr acc' \<Rightarrow> collect centers acc')"
    by (simp add: c split: sum.splits)
  show ?case
  proof (cases "bad_center centerData")
    case True
    with center_outcome [of centerData centerName acc] have "?step = Inl type_error"
      by blast
    with True show ?thesis
      unfolding unfold by (simp add: c del: bad_center.simps)
  next
    case False
    with center_outcome [of centerData centerName acc] obtain ys where "?step = Inr ys"
      by blast
    with False Cons.IH [of ys] show ?thesis
      unfolding unfold by (simp add: c del: bad_center.simps)
  qed
qed

lemma snd_indexed: "map snd (indexed i xs) = xs"
  by (induction xs arbitrary: i) simp_all

lemma list_ex_indexed: "list_ex (\<lambda>c. P (snd c)) (indexed i xs) = list_ex P xs"
  by (induction xs arbitrary: i) simp_all

lemma load_all_outcome:
  "(unusable j \<longrightarrow> load_all (Document j) = Inl type_error) \<and>
   (\<not> unusable j \<longrightarrow> (\<exists>fs. load_all (Document j) = Inr fs))"
proof (cases j)
  case (JStr s)
  have "\<not> list_ex bad_center (map (\<lambda>c. JStr [c]) s)"
    by (simp add: list_ex_iff)
  then have "\<not> list_ex (\<lambda>c. bad_center (snd c)) (indexed 0 (map (\<lambda>c. JStr [c]) s))"
    by (simp add: list_ex_indexed del: bad_center.simps)
  with collect_outcome [of "indexed 0 (map (\<lambda>c. JStr [c]) s)" "[]"] JStr show ?thesis
    by (simp add: load_all_def del: bad_center.simps)
next
  case (JArr xs ps)
  have idx: "list_ex (\<lambda>c. bad_center (snd c)) (indexed 0 xs) = list_ex bad_center xs"
    by (rule list_ex_indexed)
  with collect_outcome [of "indexed 0 xs @ ps" "[]"] JArr show ?thesis
    by (simp add: load_all_def idx del: bad_center.simps)
next
  case (JObj ps)
  with collect_outcome [of ps "[]"] show ?thesis
    by (simp add: load_all_def del: bad_center.simps)
qed (simp_all add: load_all_def)

text \<open>
  C7, as amended. \<^verbatim>\<open>getAllFacilities\<close> returns a failure result (no data, the message of
  the error), changes nothing and does not try again, whenever the catalog file cannot
  be read or its text is not JSON, and whenever the parsed document is \<^verbatim>\<open>null\<close>, has a
  \<^verbatim>\<open>null\<close> entry, an entry whose \<^verbatim>\<open>facilities\<close> is truthy and not an array, or a
  \<^verbatim>\<open>facilities\<close> array with an element that is \<^verbatim>\<open>null\<close> or a primitive. Every other
  document, of the mapping shape or not, yields a success.
\<close>

theorem getAllFacilities_failure:
  "(catalog_file w = Unreadable e \<or> catalog_file w = NotJson e \<longrightarrow>
      getAllFacilities w s =
        \<lparr>after = s, events = [],
         returned = Inr \<lparr>success = False, data = None,
                        error = Some (error_message ''Failed to load facilities'' e),
                        message = None\<rparr>\<rparr>) \<and>
   (catalog_file w = Document j \<and> unusable j \<longrightarrow>
      (\<exists>m. getAllFacilities w s =
        \<lparr>after = s, events = [],
         returned = Inr \<lparr>success = False, data = None, error = Some m, message = None\<rparr>\<rparr>)) \<and>
   (catalog_file w = Document j \<and> \<not> unusable j \<longrightarrow>
      (\<exists>fs. returned (getAllFacilities w s) =
         Inr \<lparr>success = True, data = Some (JArr fs []), error = None, message = None\<rparr>))"
proof -
  have "catalog_file w = Unreadable e \<or> catalog_file w = NotJson e \<longrightarrow>
      getAllFacilities w s =
        \<lparr>after = s, events = [],
         returned = Inr \<lparr>success = False, data = None,
                        error = Some (error_message ''Failed to load facilities'' e),
                        message = None\<rparr>\<rparr>"
    by (auto simp: getAllFacilities_def load_all_def)
  moreover have "catalog_file w = Document j \<and> unusable j \<longrightarrow>
      (\<exists>m. getAllFacilities w s =
        \<lparr>after = s, events = [],
         returned = Inr \<lparr>success = False, data = None, error = Some m, message = None\<rparr>\<rparr>)"
    using load_all_outcome [of j] by (auto simp: getAllFacilities_def)
  moreover have "catalog_file w = Document j \<and> \<not> unusable j \<longrightarrow>
      (\<exists>fs. returned (getAllFacilities w s) =
         Inr \<lparr>success = True, data = Some (JArr fs []), error = None, message = None\<rparr>)"
    using load_all_outcome [of j] by (auto simp: getAllFacilities_def)
  ultimately show ?thesis by blast
qed

text \<open>
  C7 as stated fails: neither the document \<^verbatim>\<open>5\<close> nor the document
  \<^verbatim>\<open>{"Anchor Hall": 5}\<close> is a mapping from center names to records with a facilities list,
  and on both \<^verbatim>\<open>getAllFacilities\<close> succeeds, with the empty list.
\<close>

theorem getAllFacilities_accepts_other_shapes:
  "\<not> expected_shape (JNum 5) \<and>
   returned (getAllFacilities (calm_world\<lparr>catalog_file := Document (JNum 5)\<rparr>) constructor) =
     Inr \<lparr>success = True, data = Some (JArr [] []), error = None, message = None\<rparr> \<and>
   \<not> expected_shape (JObj [(''Anchor Hall'', JNum 5)]) \<and>
   returned (getAllFacilities
       (calm_world\<lparr>catalog_file := Document (JObj [(''Anchor Hall'', JNum 5)])\<rparr>) constructor) =
     Inr \<lparr>success = True, data = Some (JArr [] []), error = None, message = None\<rparr>"
  by (simp add: getAllFacilities_def load_all_def or_empty_def)

text \<open>
  A missing file, a truncated file, a center whose \<^verbatim>\<open>facilities\<close> is the number 3, and the
  sample catalog.
\<close>

theorem getAllFacilities_failure_witness:
  "getAllFacilities missing_file_world constructor =
     \<lparr>after = constructor, events = [],
      returned = Inr \<lparr>success = False, data = None,
                     error = Some ''ENOENT: no such file or directory'', message = None\<rparr>\<rparr> \<and>
   getAllFacilities broken_file_world constructor =
     \<lparr>after = constructor, events = [],
      returned = Inr \<lparr>success = False, data = None,
                     error = Some ''Unexpected end of JSON input'', message = None\<rparr>\<rparr> \<and>
   unusable (JObj [(''Anchor Hall'', JObj [(''facilities'', JNum 3)])]) \<and>
   (\<exists>m. getAllFacilities
          (calm_world\<lparr>catalog_file :=
             Document (JObj [(''Anchor Hall'', JObj [(''facilities'', JNum 3)])])\<rparr>)
          constructor =
     \<lparr>after = constructor, events = [],
      returned = Inr \<lparr>success = False, data = None, error = Some m, message = None\<rparr>\<rparr>) \<and>
   (\<exists>fs. returned (getAllFacilities calm_world constructor) =
     Inr \<lparr>success = True, data = Some (JArr fs []), error = None, message = None\<rparr>)"
proof -
  have 1: "catalog_file missing_file_world =
      Unreadable (ErrorObject ''ENOENT: no such file or directory'')"
    by (simp add: missing_file_world_def)
  have 2: "catalog_file broken_file_world = NotJson (ErrorObject ''Unexpected end of JSON input'')"
    by (simp add: broken_file_world_def)
  have 3: "unusable (JObj [(''Anchor Hall'', JObj [(''facilities'', JNum 3)])])"
    by simp
  have 4: "catalog_file calm_world = Document sample_catalog" "\<not> unusable sample_catalog"
    by (simp_all add: calm_world_def sample_catalog_def sample_centers_def)
  from getAllFacilities_failure [where w = missing_file_world and s = constructor
      and e = "ErrorObject ''ENOENT: no such file or directory''", THEN conjunct1] 1
  have a: "getAllFacilities missing_file_world constructor =
     \<lparr>after = constructor, events = [],
      returned = Inr \<lparr>success = False, data = None,
                     error = Some ''ENOENT: no such file or directory'', message = None\<rparr>\<rparr>"
    by simp
  from getAllFacilities_failure [where w = broken_file_world and s = constructor
      and e = "ErrorObject ''Unexpected end of JSON input''", THEN conjunct1] 2
  have b: "getAllFacilities broken_file_world constructor =
     \<lparr>after = constructor, events = [],
      returned = Inr \<lparr>success = False, data = None,
                     error = Some ''Unexpected end of JSON input'', message = None\<rparr>\<rparr>"
    by simp
  from getAllFacilities_failure [where s = constructor
      and w = "calm_world\<lparr>catalog_file :=
             Document (JObj [(''Anchor Hall'', JObj [(''facilities'', JNum 3)])])\<rparr>"
      and j = "JObj [(''Anchor Hall'', JObj [(''facilities'', JNum 3)])]",
      THEN conjunct2, THEN conjunct1] 3
  have c: "\<exists>m. getAllFacilities
          (calm_world\<lparr>catalog_file :=
             Document (JObj [(''Anchor Hall'', JObj [(''facilities'', JNum 3)])])\<rparr>)
          constructor =
     \<lparr>after = constructor, events = [],
      returned = Inr \<lparr>success = False, data = None, error = Some m, message = None\<rparr>\<rparr>"
    by simp
  from getAllFacilities_failure [where w = calm_world and s = constructor
      and j = sample_catalog, THEN conjunct2, THEN conjunct2] 4
  have d: "\<exists>fs. returned (getAllFacilities calm_world constructor) =
     Inr \<lparr>success = True, data = Some (JArr fs []), error = None, message = None\<rparr>"
    by simp
  from a b 3 c d show ?thesis by blast
qed

end
